theory Spec2Isabelle
  imports Complex_Main
begin

section \<open>The HTTP interface of the client (lib/api.ts)\<close>

text \<open>
  The front end is a React application written in TypeScript. Its interfaces become
  records; a field keeps the name it has in the source behind a prefix that tells the
  records apart (\<open>GraphNode.id\<close> is \<open>node_id\<close>, \<open>GraphEdge.label\<close> is \<open>edge_label\<close>).
  A JavaScript \<open>string\<close> is a \<open>string\<close>, a case id (\<open>number\<close>, read from JSON) an
  \<open>int\<close>, and \<open>number | null\<close> an \<open>int option\<close>.
\<close>

record ChatMessage =
  role :: string
  content :: string

record GraphNode =
  node_id :: string
  node_label :: string
  node_type :: string
  node_color :: string

record GraphEdge =
  edge_source :: string
  edge_target :: string
  edge_label :: string

record GraphData =
  nodes :: "GraphNode list"
  edges :: "GraphEdge list"

record Case =
  case_id :: int
  title :: string
  created_at :: string
  updated_at :: string

record StoredMessage =
  msg_id :: int
  msg_role :: string
  msg_content :: string
  msg_created_at :: string

record CaseDetail = Case +
  case_messages :: "StoredMessage list"

text \<open>
  \<open>sendMessage\<close> is typed \<open>Promise<any>\<close>; the two fields that \<open>handleSendMessage\<close>
  reads are the ones of the interface \<open>ingest\<close> of the specification.
\<close>

record ChatResponse =
  assistant_message :: string
  graph_updated :: bool

record ClearResponse =
  success :: bool
  clear_message :: string

record File =
  file_name :: string
  file_type :: string

text \<open>A thrown JavaScript \<open>Error\<close> with its message.\<close>

datatype exn = Error string

text \<open>
  What \<open>fetch\<close> resolves to: the flag \<open>response.ok\<close> and the outcome of
  \<open>response.json()\<close>, which rejects when the body is not JSON.
\<close>

record 'a Response =
  ok :: bool
  json :: "exn + 'a"

text \<open>
  The server behind \<open>API_BASE_URL\<close> is not part of the client. It is a parameter: one
  function per endpoint, from the server's state \<open>'b\<close> to what \<open>fetch\<close> gives (a
  rejection or a response) and the server's next state.
\<close>

record 'b server =
  POST_api_chat :: "int \<Rightarrow> string \<Rightarrow> string option \<Rightarrow> 'b \<Rightarrow> (exn + ChatResponse Response) \<times> 'b"
  GET_api_graph :: "int \<Rightarrow> 'b \<Rightarrow> (exn + GraphData Response) \<times> 'b"
  POST_api_clear :: "int \<Rightarrow> 'b \<Rightarrow> (exn + ClearResponse Response) \<times> 'b"
  GET_api_case :: "int \<Rightarrow> 'b \<Rightarrow> (exn + CaseDetail Response) \<times> 'b"
  POST_api_upload :: "File \<Rightarrow> 'b \<Rightarrow> (exn + string Response) \<times> 'b"

text \<open>
  The body shared by the functions of \<open>api.ts\<close>: await \<open>fetch\<close>, throw the function's
  own error when \<open>response.ok\<close> is false, else return \<open>response.json()\<close>.
\<close>

definition fetch_json :: "string \<Rightarrow> ('b \<Rightarrow> (exn + 'a Response) \<times> 'b) \<Rightarrow> 'b \<Rightarrow> (exn + 'a) \<times> 'b" where
  "fetch_json failure endpoint b =
     (case endpoint b of
        (Inl e, b1) \<Rightarrow> (Inl e, b1)
      | (Inr response, b1) \<Rightarrow>
          if \<not> ok response then (Inl (Error failure), b1) else (json response, b1))"

definition sendMessage :: "'b server \<Rightarrow> int \<Rightarrow> string \<Rightarrow> string option \<Rightarrow> 'b \<Rightarrow> (exn + ChatResponse) \<times> 'b" where
  "sendMessage srv caseId message fileContent =
     fetch_json ''Failed to send message'' (POST_api_chat srv caseId message fileContent)"


definition getGraph :: "'b server \<Rightarrow> int \<Rightarrow> 'b \<Rightarrow> (exn + GraphData) \<times> 'b" where
  "getGraph srv caseId = fetch_json ''Failed to fetch graph'' (GET_api_graph srv caseId)"

definition clearGraph :: "'b server \<Rightarrow> int \<Rightarrow> 'b \<Rightarrow> (exn + ClearResponse) \<times> 'b" where
  "clearGraph srv caseId = fetch_json ''Failed to clear graph'' (POST_api_clear srv caseId)"

definition getCase :: "'b server \<Rightarrow> int \<Rightarrow> 'b \<Rightarrow> (exn + CaseDetail) \<times> 'b" where
  "getCase srv caseId = fetch_json ''Failed to fetch case'' (GET_api_case srv caseId)"

section \<open>The state of the application and its effects (App.tsx, Chat.tsx)\<close>

datatype Tab = TabChat | TabGraph

text \<open>The \<open>useState\<close> cells of \<open>AppContent\<close>.\<close>

record AppState =
  activeTab :: Tab
  messages :: "ChatMessage list"
  graphNodes :: "GraphNode list"
  graphEdges :: "GraphEdge list"
  isLoading :: bool
  cases :: "Case list"
  selectedCaseId :: "int option"
  isCasesLoading :: bool

text \<open>
  The \<open>useState\<close> cells of \<open>Chat\<close> that \<open>handleSubmit\<close> reads or writes (the others
  belong to voice recording).
\<close>

record ChatState =
  input :: string
  selectedFile :: "File option"

text \<open>What a handler does to the outside, in the order it does it.\<close>

datatype request =
    Req_chat int string "string option"
  | Req_graph int
  | Req_clear int
  | Req_case int
  | Req_upload File

datatype event =
    Fetch request
  | Alert string
  | ConsoleError string
  | Call_onSendMessage string "string option"
  | UnhandledRejection exn

record 'b world =
  app :: AppState
  chat :: ChatState
  backend :: 'b
  trace :: "event list"

text \<open>
  A handler is a function from the world to an outcome and the next world. The outcome
  \<open>Inl e\<close> is the exception \<open>e\<close> leaving the handler (for an \<open>async\<close> function, the
  rejection of its promise); state written before a throw stays written, as in
  JavaScript. A handler runs here from its event to its last statement with no other
  handler in between: what another event does while this one awaits is outside the model.
\<close>

type_synonym ('b, 'a) io = "'b world \<Rightarrow> (exn + 'a) \<times> 'b world"

definition return_io :: "'a \<Rightarrow> ('b, 'a) io" where
  "return_io x w = (Inr x, w)"

definition bind_io :: "('b, 'a) io \<Rightarrow> ('a \<Rightarrow> ('b, 'c) io) \<Rightarrow> ('b, 'c) io" where
  "bind_io m k w = (case m w of (Inl e, w1) \<Rightarrow> (Inl e, w1) | (Inr x, w1) \<Rightarrow> k x w1)"

definition then_io :: "('b, 'a) io \<Rightarrow> ('b, 'c) io \<Rightarrow> ('b, 'c) io" where
  "then_io m k = bind_io m (\<lambda>_. k)"

definition try_catch :: "('b, 'a) io \<Rightarrow> (exn \<Rightarrow> ('b, 'a) io) \<Rightarrow> ('b, 'a) io" where
  "try_catch m handler w = (case m w of (Inl e, w1) \<Rightarrow> handler e w1 | (Inr x, w1) \<Rightarrow> (Inr x, w1))"

definition try_finally :: "('b, 'a) io \<Rightarrow> ('b, unit) io \<Rightarrow> ('b, 'a) io" where
  "try_finally m finalizer w =
     (case m w of (r, w1) \<Rightarrow>
        (case finalizer w1 of (Inl e, w2) \<Rightarrow> (Inl e, w2) | (Inr _, w2) \<Rightarrow> (r, w2)))"

definition emit :: "event \<Rightarrow> ('b, unit) io" where
  "emit ev w = (Inr (), w\<lparr>trace := trace w @ [ev]\<rparr>)"

text \<open>\<open>await api.f(...)\<close>: the request is recorded and the server moves on.\<close>

definition await_api :: "request \<Rightarrow> ('b \<Rightarrow> (exn + 'a) \<times> 'b) \<Rightarrow> ('b, 'a) io" where
  "await_api rq f w =
     (case f (backend w) of (r, b1) \<Rightarrow> (r, w\<lparr>backend := b1, trace := trace w @ [Fetch rq]\<rparr>))"

definition setMessages :: "(ChatMessage list \<Rightarrow> ChatMessage list) \<Rightarrow> ('b, unit) io" where
  "setMessages f w = (Inr (), w\<lparr>app := (app w)\<lparr>messages := f (messages (app w))\<rparr>\<rparr>)"

definition setGraphNodes :: "GraphNode list \<Rightarrow> ('b, unit) io" where
  "setGraphNodes ns w = (Inr (), w\<lparr>app := (app w)\<lparr>graphNodes := ns\<rparr>\<rparr>)"

definition setGraphEdges :: "GraphEdge list \<Rightarrow> ('b, unit) io" where
  "setGraphEdges es w = (Inr (), w\<lparr>app := (app w)\<lparr>graphEdges := es\<rparr>\<rparr>)"

definition setIsLoading :: "bool \<Rightarrow> ('b, unit) io" where
  "setIsLoading v w = (Inr (), w\<lparr>app := (app w)\<lparr>isLoading := v\<rparr>\<rparr>)"

definition setInput :: "string \<Rightarrow> ('b, unit) io" where
  "setInput s w = (Inr (), w\<lparr>chat := (chat w)\<lparr>input := s\<rparr>\<rparr>)"

definition setSelectedFile :: "File option \<Rightarrow> ('b, unit) io" where
  "setSelectedFile f w = (Inr (), w\<lparr>chat := (chat w)\<lparr>selectedFile := f\<rparr>\<rparr>)"

text \<open>
  \<open>!selectedCaseId\<close> on a \<open>number | null\<close>: \<open>null\<close> is falsy, and so is the number 0.
\<close>

fun truthy_id :: "int option \<Rightarrow> bool" where
  "truthy_id None = False"
| "truthy_id (Some n) = (n \<noteq> 0)"

subsection \<open>AppContent: loadGraph, loadCaseData, handleSendMessage, handleClearMemory\<close>

text \<open>
  The handlers of one render close over that render's \<open>selectedCaseId\<close>: a handler
  reads it once, when it starts, and \<open>loadGraph\<close> and \<open>loadCaseData\<close> called from it
  see the same value. It is their first argument here. The effects of \<open>AppContent\<close>
  depend on \<open>selectedCaseId\<close> and \<open>activeTab\<close> only, which neither
  \<open>handleSendMessage\<close> nor \<open>handleClearMemory\<close> writes, so no effect runs because of
  them.
\<close>

definition loadGraph :: "'b server \<Rightarrow> int option \<Rightarrow> ('b, unit) io" where
  "loadGraph srv selectedCaseId' =
     (if \<not> truthy_id selectedCaseId' then return_io ()
      else
        try_catch
          (bind_io (await_api (Req_graph (the selectedCaseId')) (getGraph srv (the selectedCaseId'))) (\<lambda>data.
           then_io (setGraphNodes (nodes data))
                   (setGraphEdges (edges data))))
          (\<lambda>error. emit (ConsoleError ''Failed to load graph:'')))"

definition loadCaseData :: "'b server \<Rightarrow> int option \<Rightarrow> int \<Rightarrow> ('b, unit) io" where
  "loadCaseData srv selectedCaseId' caseId =
     try_catch
       (bind_io (await_api (Req_case caseId) (getCase srv caseId)) (\<lambda>caseDetail.
        then_io (setMessages (\<lambda>_. map (\<lambda>msg. \<lparr>role = msg_role msg, content = msg_content msg\<rparr>)
                                       (case_messages caseDetail)))
                (loadGraph srv selectedCaseId')))
       (\<lambda>error. emit (ConsoleError ''Failed to load case data:''))"

definition handleSendMessage :: "'b server \<Rightarrow> string \<Rightarrow> string option \<Rightarrow> ('b, unit) io" where
  "handleSendMessage srv message fileContent w =
     (let selectedCaseId' = selectedCaseId (app w) in
      if \<not> truthy_id selectedCaseId' then
        emit (Alert ''Please select or create a case first'') w
      else
        (then_io (setMessages (\<lambda>prev. prev @ [\<lparr>role = ''user'', content = message\<rparr>]))
        (then_io (setIsLoading True)
        (try_finally
          (try_catch
            (bind_io (await_api (Req_chat (the selectedCaseId') message fileContent)
                                (sendMessage srv (the selectedCaseId') message fileContent)) (\<lambda>response.
             then_io (setMessages (\<lambda>prev. prev @ [\<lparr>role = ''assistant'', content = assistant_message response\<rparr>]))
                     (if graph_updated response then loadGraph srv selectedCaseId' else return_io ())))
            (\<lambda>error.
             then_io (emit (ConsoleError ''Failed to send message:''))
                     (setMessages (\<lambda>prev. prev @ [\<lparr>role = ''assistant'',
                        content = ''Sorry, there was an error processing your message. Please try again.''\<rparr>]))))
          (setIsLoading False)))) w)"

definition handleClearMemory :: "'b server \<Rightarrow> ('b, unit) io" where
  "handleClearMemory srv w =
     (let selectedCaseId' = selectedCaseId (app w) in
      if \<not> truthy_id selectedCaseId' then return_io () w
      else
        try_catch
          (bind_io (await_api (Req_clear (the selectedCaseId')) (clearGraph srv (the selectedCaseId'))) (\<lambda>_.
           then_io (setGraphNodes [])
          (then_io (setGraphEdges [])
                   (loadCaseData srv selectedCaseId' (the selectedCaseId')))))
          (\<lambda>error. emit (ConsoleError ''Failed to clear graph:'')) w)"

subsection \<open>Sidebar: the Actions section\<close>

text \<open>
  What the expanded sidebar renders under Actions: the Clear Case Memory button with
  its \<open>disabled\<close> attribute, or the confirmation panel once the button was clicked.
\<close>

datatype ActionsView = ClearCaseMemoryButton bool | ConfirmPanel

definition Sidebar_actions :: "bool \<Rightarrow> int option \<Rightarrow> ActionsView" where
  "Sidebar_actions showConfirm selectedCaseId' =
     (if \<not> showConfirm then ClearCaseMemoryButton (\<not> truthy_id selectedCaseId') else ConfirmPanel)"

subsection \<open>Chat: the send button and handleSubmit\<close>

text \<open>
  A JavaScript string is a sequence of UTF-16 code units. It is held here as the bytes
  of its UTF-8 form, one \<open>char\<close> a byte, so a character past ASCII is two to four
  bytes.
\<close>

text \<open>\<open>s.startsWith(p)\<close>, byte by byte.\<close>

fun starts_with :: "string \<Rightarrow> string \<Rightarrow> bool" where
  "starts_with s [] = True"
| "starts_with [] (c # cs) = False"
| "starts_with (a # s) (c # cs) = (a = c \<and> starts_with s cs)"

text \<open>
  What \<open>String.prototype.trim\<close> strips from both ends: the white space of
  ECMAScript (U+0009, U+000B, U+000C, U+FEFF and the space separators U+0020, U+00A0,
  U+1680, U+2000 to U+200A, U+202F, U+205F, U+3000) and its line terminators (U+000A,
  U+000D, U+2028, U+2029), each in UTF-8.
\<close>

definition white_space :: "string list" where
  "white_space =
     [[CHR 0x09], [CHR 0x0A], [CHR 0x0B], [CHR 0x0C], [CHR 0x0D], [CHR 0x20],
      [CHR 0xC2, CHR 0xA0],
      [CHR 0xE1, CHR 0x9A, CHR 0x80],
      [CHR 0xE2, CHR 0x80, CHR 0x80], [CHR 0xE2, CHR 0x80, CHR 0x81], [CHR 0xE2, CHR 0x80, CHR 0x82],
      [CHR 0xE2, CHR 0x80, CHR 0x83], [CHR 0xE2, CHR 0x80, CHR 0x84], [CHR 0xE2, CHR 0x80, CHR 0x85],
      [CHR 0xE2, CHR 0x80, CHR 0x86], [CHR 0xE2, CHR 0x80, CHR 0x87], [CHR 0xE2, CHR 0x80, CHR 0x88],
      [CHR 0xE2, CHR 0x80, CHR 0x89], [CHR 0xE2, CHR 0x80, CHR 0x8A],
      [CHR 0xE2, CHR 0x80, CHR 0xA8], [CHR 0xE2, CHR 0x80, CHR 0xA9],
      [CHR 0xE2, CHR 0x80, CHR 0xAF],
      [CHR 0xE2, CHR 0x81, CHR 0x9F],
      [CHR 0xE3, CHR 0x80, CHR 0x80],
      [CHR 0xEF, CHR 0xBB, CHR 0xBF]]"

text \<open>
  The number of bytes of the character of the table that the string begins with, or 0
  when it begins with none.
\<close>

definition leading :: "string list \<Rightarrow> string \<Rightarrow> nat" where
  "leading table s = (case find (starts_with s) table of Some ws \<Rightarrow> length ws | None \<Rightarrow> 0)"

text \<open>Dropping, from the front, every character of the table.\<close>

function strip_start :: "string list \<Rightarrow> string \<Rightarrow> string" where
  "strip_start table s =
     (if leading table s = 0 then s else strip_start table (drop (leading table s) s))"
  by pat_completeness auto
termination
proof (relation "measure (\<lambda>(table, s). length s)")
  show "wf (measure (\<lambda>(table, s). length s))" by simp
next
  fix table :: "string list" and s :: string
  assume a: "leading table s \<noteq> 0"
  then obtain ws where f: "find (starts_with s) table = Some ws" and l: "length ws \<noteq> 0"
    by (auto simp add: leading_def split: option.splits)
  from f have "starts_with s ws" by (auto simp add: find_Some_iff)
  with l have "s \<noteq> []" by (cases ws) auto
  with a show "((table, drop (leading table s) s), (table, s)) \<in> measure (\<lambda>(table, s). length s)"
    by simp
qed

declare strip_start.simps [simp del]

text \<open>
  \<open>String.prototype.trim\<close>. The end of the string is stripped on its reversal, with
  the table reversed: in UTF-8 no character ends with the bytes of another, so the
  bytes of a white space at the end of a string are that white space.
\<close>

definition trim :: "string \<Rightarrow> string" where
  "trim s = rev (strip_start (map rev white_space) (rev (strip_start white_space s)))"













section \<open>The graph view (GraphView.tsx)\<close>

subsection \<open>getEnhancedColor\<close>

record ColorTriple =
  triple_bg :: string
  triple_text :: string
  triple_border :: string

text \<open>The own properties of the object literal \<open>colors\<close>.\<close>

definition colors :: "(string \<times> ColorTriple) list" where
  "colors =
     [(''Person'', \<lparr>triple_bg = ''#EF4444'', triple_text = ''#FFFFFF'', triple_border = ''#DC2626''\<rparr>),
      (''Location'', \<lparr>triple_bg = ''#3B82F6'', triple_text = ''#FFFFFF'', triple_border = ''#2563EB''\<rparr>),
      (''Object'', \<lparr>triple_bg = ''#10B981'', triple_text = ''#FFFFFF'', triple_border = ''#059669''\<rparr>),
      (''Event'', \<lparr>triple_bg = ''#F59E0B'', triple_text = ''#000000'', triple_border = ''#D97706''\<rparr>),
      (''Organization'', \<lparr>triple_bg = ''#8B5CF6'', triple_text = ''#FFFFFF'', triple_border = ''#7C3AED''\<rparr>),
      (''Unknown'', \<lparr>triple_bg = ''#6B7280'', triple_text = ''#FFFFFF'', triple_border = ''#4B5563''\<rparr>)]"

text \<open>
  \<open>colors\<close> is an object literal, so its prototype is \<open>Object.prototype\<close>, and
  \<open>colors[type]\<close> finds the members of the prototype as well as the six own
  properties. These are the names \<open>Object.prototype\<close> defines: functions, and for
  \<open>__proto__\<close> the prototype object itself.
\<close>

definition Object_prototype :: "string list" where
  "Object_prototype =
     [''constructor'', ''hasOwnProperty'', ''isPrototypeOf'', ''propertyIsEnumerable'',
      ''toLocaleString'', ''toString'', ''valueOf'', ''__proto__'',
      ''__defineGetter__'', ''__defineSetter__'', ''__lookupGetter__'', ''__lookupSetter__'']"

text \<open>
  What a property read gives: one of the triples, a member of the prototype (an object
  or function: truthy, with no enumerable property of its own for a spread to copy), or
  \<open>undefined\<close>.
\<close>

datatype property = Own ColorTriple | Inherited | Undefined

definition colors_get :: "string \<Rightarrow> property" where
  "colors_get key =
     (case map_of colors key of
        Some c \<Rightarrow> Own c
      | None \<Rightarrow> if key \<in> set Object_prototype then Inherited else Undefined)"

text \<open>
  The object \<open>getEnhancedColor\<close> returns; a field the spread did not copy is
  \<open>undefined\<close>, here \<open>None\<close>.
\<close>

record EnhancedColor =
  ec_bg :: "string option"
  ec_text :: "string option"
  ec_border :: "string option"
  ec_shadow :: string

definition spread_color :: "property \<Rightarrow> EnhancedColor" where
  "spread_color p =
     (case p of
        Own c \<Rightarrow> \<lparr>ec_bg = Some (triple_bg c), ec_text = Some (triple_text c),
                   ec_border = Some (triple_border c), ec_shadow = []\<rparr>
      | _ \<Rightarrow> \<lparr>ec_bg = None, ec_text = None, ec_border = None, ec_shadow = []\<rparr>)"

definition getEnhancedColor :: "string \<Rightarrow> bool \<Rightarrow> bool \<Rightarrow> EnhancedColor" where
  "getEnhancedColor type' isHighlighted isConnected =
     (let color = (case colors_get type' of Undefined \<Rightarrow> colors_get ''Unknown'' | p \<Rightarrow> p) in
      if isHighlighted then
        (spread_color color)\<lparr>ec_border := Some ''#FFF'', ec_shadow := ''0 0 20px rgba(255,255,255,0.8)''\<rparr>
      else if isConnected then
        (spread_color color)\<lparr>ec_border := Some ''#FFF'', ec_shadow := ''0 0 10px rgba(255,255,255,0.5)''\<rparr>
      else
        (spread_color color)\<lparr>ec_shadow := ''0 2px 8px rgba(0,0,0,0.3)''\<rparr>)"

subsection \<open>Layout\<close>

text \<open>
  Positions are JavaScript numbers. Every coordinate computed below is a multiple of
  one half far below \<open>2^53\<close>, where double arithmetic is exact, so they are reals here.
\<close>

record Position =
  pos_x :: real
  pos_y :: real

definition layouts :: "(nat \<times> nat \<times> real) list" where
  "layouts = [(1, (1, 200)), (2, (2, 250)), (3, (3, 200)), (4, (2, 250)), (5, (3, 200)), (6, (3, 200))]"

text \<open>\<open>Math.ceil(Math.sqrt(n))\<close> on a count: the least \<open>c\<close> whose square reaches \<open>n\<close>.\<close>

definition ceil_sqrt :: "nat \<Rightarrow> nat" where
  "ceil_sqrt n = (case find (\<lambda>c. n \<le> c * c) [0..<Suc n] of Some c \<Rightarrow> c | None \<Rightarrow> n)"

definition calculateLayout :: "nat \<Rightarrow> nat \<times> real" where
  "calculateLayout nodeCount =
     (if nodeCount \<le> 6 then
        (case map_of layouts nodeCount of Some l \<Rightarrow> l | None \<Rightarrow> the (map_of layouts 6))
      else (ceil_sqrt nodeCount, max 180 (300 - real nodeCount * 5)))"

definition gridPosition :: "nat \<Rightarrow> real \<Rightarrow> nat \<Rightarrow> Position" where
  "gridPosition cols spacing index =
     (let row = index div cols;
          col = index mod cols;
          offsetX = (if row mod 2 = 1 then spacing / 2 else 0)
      in \<lparr>pos_x = real col * spacing + offsetX + 100, pos_y = real row * spacing + 100\<rparr>)"

subsection \<open>The nodes and edges given to ReactFlow\<close>

text \<open>The JSX of a node's label: the two lines of text and their color.\<close>

record NodeLabel =
  label_name :: string
  label_type :: string
  label_color :: "string option"

record NodeStyle =
  css_background :: "string option"
  css_color :: "string option"
  css_border :: string
  css_borderRadius :: string
  css_padding :: string
  css_fontSize :: string
  css_minWidth :: string
  css_boxShadow :: string
  css_cursor :: string
  css_transition :: string
  css_opacity :: real

record FlowNode =
  n_id :: string
  n_type :: string
  n_position :: Position
  n_data :: NodeLabel
  n_style :: NodeStyle
  n_draggable :: bool

datatype MarkerType = Arrow | ArrowClosed

record EdgeMarker =
  marker_type :: MarkerType
  marker_color :: string

record EdgeStyle =
  stroke :: string
  strokeWidth :: nat
  stroke_opacity :: real

record LabelStyle =
  label_fill :: string
  label_fontSize :: nat
  label_fontWeight :: string

record LabelBgStyle =
  bg_fill :: string
  bg_fillOpacity :: real

record FlowEdge =
  e_id :: string
  e_source :: string
  e_target :: string
  e_label :: string
  e_type :: string
  e_animated :: bool
  e_style :: EdgeStyle
  e_labelStyle :: LabelStyle
  e_labelBgStyle :: LabelBgStyle
  e_markerEnd :: EdgeMarker

text \<open>A value in a template literal: \<open>undefined\<close> prints as the word.\<close>

definition template :: "string option \<Rightarrow> string" where
  "template v = (case v of None \<Rightarrow> ''undefined'' | Some s \<Rightarrow> s)"

text \<open>A number in a template literal: an index prints in decimal.\<close>

definition digit_char :: "nat \<Rightarrow> char" where
  "digit_char d = char_of (48 + d)"

function string_of_nat :: "nat \<Rightarrow> string" where
  "string_of_nat n = (if n < 10 then [digit_char n] else string_of_nat (n div 10) @ [digit_char (n mod 10)])"
  by pat_completeness auto
termination
  by (relation "measure id") auto

declare string_of_nat.simps [simp del]

text \<open>
  The state of the component: the two \<open>useNodesState\<close>/\<open>useEdgesState\<close> cells, the
  selection, and the map held by \<open>nodePositionsRef\<close>.
\<close>

record GraphViewState =
  gv_nodes :: "FlowNode list"
  gv_edges :: "FlowEdge list"
  selectedNodeId :: "string option"
  nodePositionsRef :: "string \<rightharpoonup> Position"

definition makeLabel :: "GraphNode \<Rightarrow> EnhancedColor \<Rightarrow> NodeLabel" where
  "makeLabel node c = \<lparr>label_name = node_label node, label_type = node_type node, label_color = ec_text c\<rparr>"

text \<open>The body of the \<open>map\<close> in the first effect.\<close>

definition makeFlowNode :: "(string \<rightharpoonup> Position) \<Rightarrow> nat \<Rightarrow> real \<Rightarrow> nat \<times> GraphNode \<Rightarrow> FlowNode" where
  "makeFlowNode saved cols spacing = (\<lambda>(index, node).
     (let position = (case saved (node_id node) of
                        Some savedPosition \<Rightarrow> savedPosition
                      | None \<Rightarrow> gridPosition cols spacing index);
          c = getEnhancedColor (node_type node) False False
      in \<lparr>n_id = node_id node,
          n_type = ''default'',
          n_position = position,
          n_data = makeLabel node c,
          n_style = \<lparr>css_background = ec_bg c,
                     css_color = ec_text c,
                     css_border = ''3px solid '' @ template (ec_border c),
                     css_borderRadius = ''12px'',
                     css_padding = ''12px 16px'',
                     css_fontSize = ''13px'',
                     css_minWidth = ''140px'',
                     css_boxShadow = ec_shadow c,
                     css_cursor = ''pointer'',
                     css_transition = ''all 0.3s ease'',
                     css_opacity = 1\<rparr>,
          n_draggable = True\<rparr>))"

text \<open>
  The first effect, run when \<open>graphNodes\<close> changes: it returns at once on an empty
  list, and else replaces the nodes.
\<close>

definition nodesEffect :: "GraphNode list \<Rightarrow> GraphViewState \<Rightarrow> GraphViewState" where
  "nodesEffect graphNodes' st =
     (if graphNodes' = [] then st
      else
        (let (cols, spacing) = calculateLayout (length graphNodes')
         in st\<lparr>gv_nodes := map (makeFlowNode (nodePositionsRef st) cols spacing) (enumerate 0 graphNodes')\<rparr>))"

text \<open>\<open>selectedNodeId && ...\<close> on a \<open>string | null\<close>: \<open>null\<close> and the empty string are falsy.\<close>

fun truthy_str :: "string option \<Rightarrow> bool" where
  "truthy_str None = False"
| "truthy_str (Some s) = (s \<noteq> [])"

definition connectedNodeIds :: "string option \<Rightarrow> GraphEdge list \<Rightarrow> string set" where
  "connectedNodeIds sel graphEdges' =
     (if truthy_str sel then
        edge_target ` {e \<in> set graphEdges'. Some (edge_source e) = sel}
        \<union> edge_source ` {e \<in> set graphEdges'. Some (edge_target e) = sel}
      else {})"

text \<open>The body of the \<open>map\<close> over the current nodes in the second effect.\<close>

definition restyleNode :: "string option \<Rightarrow> GraphNode list \<Rightarrow> GraphEdge list \<Rightarrow> FlowNode \<Rightarrow> FlowNode" where
  "restyleNode sel graphNodes' graphEdges' node =
     (let isHighlighted = (Some (n_id node) = sel);
          isConnected = (n_id node \<in> connectedNodeIds sel graphEdges')
      in case find (\<lambda>gn. node_id gn = n_id node) graphNodes' of
           None \<Rightarrow> node
         | Some graphNode \<Rightarrow>
             (let c = getEnhancedColor (node_type graphNode) isHighlighted isConnected
              in node\<lparr>n_data := makeLabel graphNode c,
                      n_style := (n_style node)\<lparr>css_background := ec_bg c,
                                                css_color := ec_text c,
                                                css_border := ''3px solid '' @ template (ec_border c),
                                                css_boxShadow := ec_shadow c,
                                                css_opacity := (if truthy_str sel \<and> \<not> isHighlighted \<and> \<not> isConnected
                                                                then 0.3 else 1)\<rparr>\<rparr>))"

text \<open>The body of the \<open>map\<close> over \<open>graphEdges\<close> in the second effect.\<close>

definition makeFlowEdge :: "string option \<Rightarrow> nat \<times> GraphEdge \<Rightarrow> FlowEdge" where
  "makeFlowEdge sel = (\<lambda>(index, edge).
     (let isHighlighted = (truthy_str sel \<and> (Some (edge_source edge) = sel \<or> Some (edge_target edge) = sel))
      in \<lparr>e_id = ''edge-'' @ string_of_nat index,
          e_source = edge_source edge,
          e_target = edge_target edge,
          e_label = edge_label edge,
          e_type = ''smoothstep'',
          e_animated = (if isHighlighted then True else False),
          e_style = \<lparr>stroke = (if isHighlighted then ''hsl(var(--foreground))'' else ''hsl(var(--muted-foreground))''),
                     strokeWidth = (if isHighlighted then 3 else 2),
                     stroke_opacity = (if truthy_str sel \<and> \<not> isHighlighted then 0.2 else 1)\<rparr>,
          e_labelStyle = \<lparr>label_fill = (if isHighlighted then ''hsl(var(--foreground))'' else ''hsl(var(--foreground))''),
                          label_fontSize = (if isHighlighted then 12 else 10),
                          label_fontWeight = (if isHighlighted then ''bold'' else ''normal'')\<rparr>,
          e_labelBgStyle = \<lparr>bg_fill = ''hsl(var(--background))'', bg_fillOpacity = 0.9\<rparr>,
          e_markerEnd = \<lparr>marker_type = ArrowClosed,
                         marker_color = (if isHighlighted then ''hsl(var(--foreground))'' else ''hsl(var(--muted-foreground))'')\<rparr>\<rparr>))"

text \<open>
  The second effect, run when the selection or the graph data changes: it restyles the
  current nodes and replaces the edges.
\<close>

definition selectionEffect :: "GraphNode list \<Rightarrow> GraphEdge list \<Rightarrow> GraphViewState \<Rightarrow> GraphViewState" where
  "selectionEffect graphNodes' graphEdges' st =
     st\<lparr>gv_nodes := map (restyleNode (selectedNodeId st) graphNodes' graphEdges') (gv_nodes st),
        gv_edges := map (makeFlowEdge (selectedNodeId st)) (enumerate 0 graphEdges')\<rparr>"










text \<open>What the graph view reads of a node of the graph data.\<close>

definition node_view :: "GraphNode \<Rightarrow> string \<times> string \<times> string" where
  "node_view n = (node_id n, node_label n, node_type n)"

section \<open>The case graph behind the interface\<close>

text \<open>
  The server (the Python back end with its graph manager) is not among the sources of
  the client. Where a property is decided there, the server's graph operations are
  modelled from the specification: its data model (section 3), the Case Graph Store
  (4.1), the Entity Resolver (4.2), the Graph Merge Engine (4.3), the Extraction
  Orchestrator (4.4) and the exposed interface (6). The extraction model stays a
  parameter, as the specification leaves it.
\<close>

text \<open>Modelled from the spec: the closed variant of entity types (the back end's type is missing).\<close>

datatype EntityType = Person | Location | Object | Event | Organization | Unknown

text \<open>
  Modelled from the spec: an Entity (missing: the back end's entity record). The alias
  set is a list without duplicates.
\<close>

record Entity =
  ent_id :: nat
  ent_label :: string
  ent_type :: EntityType
  aliases :: "string list"
  first_seen_turn :: nat
  last_seen_turn :: nat

text \<open>Modelled from the spec: a Relationship (missing: the back end's relationship record).\<close>

record Relationship =
  source_id :: nat
  target_id :: nat
  rel_label :: string
  rel_first_seen_turn :: nat
  rel_last_seen_turn :: nat
  occurrences :: nat

text \<open>
  Modelled from the spec: a Case Graph (missing: the back end's graph), the entities
  keyed by \<open>ent_id\<close>, the relationships, the turn counter and the next id to assign.
\<close>

record CaseGraph =
  entities :: "Entity list"
  relationships :: "Relationship list"
  turn :: nat
  next_id :: nat

text \<open>Modelled from the spec: the graph a case is created with.\<close>

definition empty_graph :: CaseGraph where
  "empty_graph = \<lparr>entities = [], relationships = [], turn = 0, next_id = 0\<rparr>"

text \<open>
  Modelled from the spec: the Case Graph Store (missing: the back end's store). A case
  id never seen holds a fresh empty graph.
\<close>

type_synonym CaseGraphStore = "int \<Rightarrow> CaseGraph"

definition empty_store :: CaseGraphStore where
  "empty_store = (\<lambda>_. empty_graph)"

text \<open>Modelled from the spec: \<open>reset\<close> of the store, which clears entities, relationships and turn counter.\<close>

definition reset :: "CaseGraphStore \<Rightarrow> int \<Rightarrow> CaseGraphStore" where
  "reset store case_id' = store(case_id' := empty_graph)"

text \<open>Modelled from the spec: \<open>clear_graph(case_id) -> { success: bool }\<close>, the destructive reset.\<close>

definition clear_graph :: "CaseGraphStore \<Rightarrow> int \<Rightarrow> bool \<times> CaseGraphStore" where
  "clear_graph store case_id' = (True, reset store case_id')"

text \<open>Modelled from the spec: the names of the entity types as \<open>get_graph\<close> writes them.\<close>

fun type_name :: "EntityType \<Rightarrow> string" where
  "type_name Person = ''Person''"
| "type_name Location = ''Location''"
| "type_name Object = ''Object''"
| "type_name Event = ''Event''"
| "type_name Organization = ''Organization''"
| "type_name Unknown = ''Unknown''"

text \<open>Modelled from the spec: a node \<open>{id, label, type}\<close> of \<open>get_graph\<close>.\<close>

record NodeView =
  view_id :: string
  view_label :: string
  view_type :: string

text \<open>
  Modelled from the spec: \<open>snapshot\<close>/\<open>get_graph(case_id) -> { nodes, edges }\<close>, the
  read for visualization; an edge \<open>{source, target, label}\<close> has the fields of the
  client's \<open>GraphEdge\<close>. An id is written in decimal.
\<close>

definition get_graph :: "CaseGraphStore \<Rightarrow> int \<Rightarrow> NodeView list \<times> GraphEdge list" where
  "get_graph store case_id' =
     (let g = store case_id' in
      (map (\<lambda>e. \<lparr>view_id = string_of_nat (ent_id e), view_label = ent_label e,
                   view_type = type_name (ent_type e)\<rparr>) (entities g),
       map (\<lambda>r. \<lparr>edge_source = string_of_nat (source_id r), edge_target = string_of_nat (target_id r),
                   edge_label = rel_label r\<rparr>) (relationships g)))"

subsection \<open>Entity Resolver\<close>

text \<open>Modelled from the spec: case-insensitive comparison, on the letters of ASCII.\<close>

definition to_lower :: "char \<Rightarrow> char" where
  "to_lower c = (let n = (of_char c :: nat) in if 65 \<le> n \<and> n \<le> 90 then char_of (n + 32) else c)"

text \<open>
  Modelled from the spec: whitespace normalization, a run of white space becoming one
  blank; the white space of ASCII.
\<close>

definition ascii_space :: "char \<Rightarrow> bool" where
  "ascii_space c = (c \<in> set [CHR 0x09, CHR 0x0A, CHR 0x0B, CHR 0x0C, CHR 0x0D, CHR 0x20])"

fun squeeze :: "string \<Rightarrow> string" where
  "squeeze (a # b # cs) =
     (if ascii_space a \<and> ascii_space b then squeeze (b # cs)
      else (if ascii_space a then CHR 0x20 else a) # squeeze (b # cs))"
| "squeeze [a] = [if ascii_space a then CHR 0x20 else a]"
| "squeeze [] = []"

text \<open>Modelled from the spec: the normal form of a surface text (case-insensitive, whitespace-normalized).\<close>

definition normalize :: "string \<Rightarrow> string" where
  "normalize s = squeeze (trim (map to_lower s))"

text \<open>Modelled from the spec: substring containment of surface texts.\<close>

fun contains :: "string \<Rightarrow> string \<Rightarrow> bool" where
  "contains [] sub = (sub = [])"
| "contains (a # s) sub = (starts_with (a # s) sub \<or> contains s sub)"

text \<open>Modelled from the spec: a strict substring or superstring.\<close>

definition strictly_nested :: "string \<Rightarrow> string \<Rightarrow> bool" where
  "strictly_nested a b = (a \<noteq> b \<and> (contains a b \<or> contains b a))"

text \<open>Modelled from the spec: the result of resolving a mention.\<close>

datatype Resolution = Matched nat | New

text \<open>
  Modelled from the spec: type compatibility of the exact alias match (proposed type
  equals the entity's type, or proposed type is \<open>Unknown\<close>).
\<close>

definition compatible :: "EntityType \<Rightarrow> EntityType \<Rightarrow> bool" where
  "compatible proposed_type entity_type = (proposed_type = entity_type \<or> proposed_type = Unknown)"

text \<open>Modelled from the spec: step 1 of the resolver, the exact alias match.\<close>

definition exact_alias_match :: "CaseGraph \<Rightarrow> string \<Rightarrow> EntityType \<Rightarrow> Entity option" where
  "exact_alias_match g surface_text proposed_type =
     find (\<lambda>e. compatible proposed_type (ent_type e)
                \<and> normalize surface_text \<in> set (map normalize (aliases e))) (entities g)"

text \<open>
  Modelled from the spec: step 2 of the resolver, the fuzzy name match for Person,
  Organization and Location, scoped to the same type, with the most recent
  \<open>last_seen_turn\<close> winning among several candidates.
\<close>

definition fuzzy_candidates :: "CaseGraph \<Rightarrow> string \<Rightarrow> EntityType \<Rightarrow> Entity list" where
  "fuzzy_candidates g surface_text proposed_type =
     (if proposed_type \<in> {Person, Organization, Location} then
        filter (\<lambda>e. ent_type e = proposed_type
                     \<and> list_ex (\<lambda>name. strictly_nested (normalize surface_text) (normalize name))
                          (ent_label e # aliases e)) (entities g)
      else [])"

fun most_recent :: "Entity list \<Rightarrow> Entity option" where
  "most_recent [] = None"
| "most_recent (e # es) =
     (case most_recent es of
        None \<Rightarrow> Some e
      | Some e' \<Rightarrow> if last_seen_turn e' > last_seen_turn e then Some e' else Some e)"

text \<open>Modelled from the spec: the Entity Resolver, first match wins; a pure query.\<close>

definition resolve :: "CaseGraph \<Rightarrow> string \<Rightarrow> EntityType \<Rightarrow> Resolution" where
  "resolve g surface_text proposed_type =
     (case exact_alias_match g surface_text proposed_type of
        Some e \<Rightarrow> Matched (ent_id e)
      | None \<Rightarrow>
          (case most_recent (fuzzy_candidates g surface_text proposed_type) of
             Some e \<Rightarrow> Matched (ent_id e)
           | None \<Rightarrow> New))"

subsection \<open>Graph Merge Engine\<close>

text \<open>
  Modelled from the spec: the output contract of the extraction model, candidate
  entities and candidate relationships. A required field may be missing: such a
  candidate is malformed.
\<close>

record CandidateEntity =
  surface_text :: "string option"
  proposed_type :: "EntityType option"

record CandidateRelationship =
  source_surface :: "string option"
  target_surface :: "string option"
  cand_label :: "string option"

record Extraction =
  cand_entities :: "CandidateEntity list"
  cand_relationships :: "CandidateRelationship list"

text \<open>Modelled from the spec: the diff of one turn, and the flag that it is not empty.\<close>

record Diff =
  new_entity_ids :: "nat list"
  updated_entity_ids :: "nat list"
  new_relationships :: "(nat \<times> nat \<times> string) list"
  strengthened_relationships :: "(nat \<times> nat \<times> string) list"

definition empty_diff :: Diff where
  "empty_diff = \<lparr>new_entity_ids = [], updated_entity_ids = [], new_relationships = [],
                  strengthened_relationships = []\<rparr>"

definition diff_nonempty :: "Diff \<Rightarrow> bool" where
  "diff_nonempty d = (new_entity_ids d \<noteq> [] \<or> updated_entity_ids d \<noteq> []
                      \<or> new_relationships d \<noteq> [] \<or> strengthened_relationships d \<noteq> [])"

text \<open>
  Modelled from the spec: what the merge carries through a turn: the graph being built,
  the entity id each mention of the turn resolved to (by normalized surface text), and
  the diff so far.
\<close>

record MergeState =
  graph :: CaseGraph
  resolved :: "(string \<times> nat) list"
  diff :: Diff

text \<open>Modelled from the spec: a matched mention is recorded as an alias of its entity, seen this turn.\<close>

definition record_mention :: "nat \<Rightarrow> string \<Rightarrow> nat \<Rightarrow> Entity \<Rightarrow> Entity" where
  "record_mention entity_id surface t e =
     (if ent_id e = entity_id then e\<lparr>aliases := List.insert surface (aliases e), last_seen_turn := t\<rparr> else e)"

text \<open>
  Modelled from the spec: one entity mention of the turn, resolved against the
  pre-turn snapshot; a \<open>New\<close> result is assigned a new id. A malformed candidate is
  skipped.
\<close>

definition merge_mention :: "CaseGraph \<Rightarrow> nat \<Rightarrow> CandidateEntity \<Rightarrow> MergeState \<Rightarrow> MergeState" where
  "merge_mention snapshot t candidate ms =
     (case (surface_text candidate, proposed_type candidate) of
        (Some surface, Some ty) \<Rightarrow>
          (case resolve snapshot surface ty of
             Matched entity_id \<Rightarrow>
               ms\<lparr>graph := (graph ms)\<lparr>entities := map (record_mention entity_id surface t) (entities (graph ms))\<rparr>,
                  resolved := resolved ms @ [(normalize surface, entity_id)],
                  diff := (diff ms)\<lparr>updated_entity_ids := updated_entity_ids (diff ms) @ [entity_id]\<rparr>\<rparr>
           | New \<Rightarrow>
               (let entity_id = next_id (graph ms) in
                ms\<lparr>graph := (graph ms)\<lparr>entities := entities (graph ms) @
                                 [\<lparr>ent_id = entity_id, ent_label = surface, ent_type = ty, aliases = [surface],
                                   first_seen_turn = t, last_seen_turn = t\<rparr>],
                               next_id := Suc entity_id\<rparr>,
                   resolved := resolved ms @ [(normalize surface, entity_id)],
                   diff := (diff ms)\<lparr>new_entity_ids := new_entity_ids (diff ms) @ [entity_id]\<rparr>\<rparr>))
      | _ \<Rightarrow> ms)"

text \<open>Modelled from the spec: a relationship re-asserted is strengthened, not duplicated.\<close>

definition same_triple :: "nat \<Rightarrow> nat \<Rightarrow> string \<Rightarrow> Relationship \<Rightarrow> bool" where
  "same_triple s t' l r = (source_id r = s \<and> target_id r = t' \<and> normalize (rel_label r) = normalize l)"

definition strengthen :: "nat \<Rightarrow> nat \<Rightarrow> string \<Rightarrow> nat \<Rightarrow> Relationship \<Rightarrow> Relationship" where
  "strengthen s t' l t r =
     (if same_triple s t' l r then r\<lparr>occurrences := Suc (occurrences r), rel_last_seen_turn := t\<rparr> else r)"

text \<open>
  Modelled from the spec: one candidate relationship of the turn. Both endpoints must
  have resolved to an entity id in this turn, else the candidate is dropped; so is a
  malformed one.
\<close>

definition merge_relationship :: "nat \<Rightarrow> CandidateRelationship \<Rightarrow> MergeState \<Rightarrow> MergeState" where
  "merge_relationship t candidate ms =
     (case (source_surface candidate, target_surface candidate, cand_label candidate) of
        (Some src, Some tgt, Some l) \<Rightarrow>
          (case (map_of (resolved ms) (normalize src), map_of (resolved ms) (normalize tgt)) of
             (Some s, Some t') \<Rightarrow>
               if list_ex (same_triple s t' l) (relationships (graph ms)) then
                 ms\<lparr>graph := (graph ms)\<lparr>relationships := map (strengthen s t' l t) (relationships (graph ms))\<rparr>,
                    diff := (diff ms)\<lparr>strengthened_relationships := strengthened_relationships (diff ms) @ [(s, t', l)]\<rparr>\<rparr>
               else
                 ms\<lparr>graph := (graph ms)\<lparr>relationships := relationships (graph ms) @
                                  [\<lparr>source_id = s, target_id = t', rel_label = l, rel_first_seen_turn = t,
                                    rel_last_seen_turn = t, occurrences = 1\<rparr>]\<rparr>,
                    diff := (diff ms)\<lparr>new_relationships := new_relationships (diff ms) @ [(s, t', l)]\<rparr>\<rparr>
           | _ \<Rightarrow> ms)
      | _ \<Rightarrow> ms)"

text \<open>
  Modelled from the spec: the Graph Merge Engine for one turn: all entity mentions
  first, then the relationships; the result is the new graph and the diff.
\<close>

definition merge :: "CaseGraph \<Rightarrow> Extraction \<Rightarrow> CaseGraph \<times> Diff" where
  "merge g candidates =
     (let t = Suc (turn g);
          ms0 = \<lparr>graph = g\<lparr>turn := t\<rparr>, resolved = [], diff = empty_diff\<rparr>;
          ms1 = fold (merge_mention g t) (cand_entities candidates) ms0;
          ms2 = fold (merge_relationship t) (cand_relationships candidates) ms1
      in (graph ms2, diff ms2))"

subsection \<open>Extraction Orchestrator\<close>

datatype ingest_error = ValidationError | ExtractionUnavailable

record IngestResult =
  ingest_graph_updated :: bool
  diff_summary :: Diff

text \<open>
  Modelled from the spec: \<open>ingest(case_id, text)\<close>. The extraction model is the
  parameter \<open>extract\<close>, given the raw text and the labels of the case's entities as
  hints; \<open>None\<close> is the model unreachable or its output malformed.
\<close>

definition ingest :: "(string \<Rightarrow> string list \<Rightarrow> Extraction option) \<Rightarrow> int \<Rightarrow> string \<Rightarrow> CaseGraphStore
    \<Rightarrow> (ingest_error + IngestResult) \<times> CaseGraphStore" where
  "ingest extract case_id' raw_text store =
     (if trim raw_text = [] then (Inl ValidationError, store)
      else
        (let g = store case_id' in
         case extract raw_text (map ent_label (entities g)) of
           None \<Rightarrow> (Inl ExtractionUnavailable, store)
         | Some candidates \<Rightarrow>
             (let (g', d) = merge g candidates
              in (Inr \<lparr>ingest_graph_updated = diff_nonempty d, diff_summary = d\<rparr>, store(case_id' := g')))))"

text \<open>
  Modelled from the spec: what callers may do to the store, and a run of such
  operations. Each ingest carries the extraction model's answer for its turn.
\<close>

datatype store_op = Ingest int string "Extraction option" | Clear int

fun store_step :: "store_op \<Rightarrow> CaseGraphStore \<Rightarrow> CaseGraphStore" where
  "store_step (Ingest case_id' raw_text answer) store = snd (ingest (\<lambda>_ _. answer) case_id' raw_text store)"
| "store_step (Clear case_id') store = snd (clear_graph store case_id')"

text \<open>
  Modelled from the spec: the referential invariant of a case graph: the endpoints of
  every relationship are entities of the same graph.
\<close>

definition entity_ids :: "CaseGraph \<Rightarrow> nat set" where
  "entity_ids g = ent_id ` set (entities g)"

definition referential :: "CaseGraph \<Rightarrow> bool" where
  "referential g = (\<forall>r \<in> set (relationships g). source_id r \<in> entity_ids g \<and> target_id r \<in> entity_ids g)"

text \<open>
  What holds all through a merge: no entity of the pre-turn snapshot is lost, every id a
  mention resolved to is an entity of the graph, and the graph is referential.
\<close>

definition merge_inv :: "CaseGraph \<Rightarrow> MergeState \<Rightarrow> bool" where
  "merge_inv snapshot ms =
     (entity_ids snapshot \<subseteq> entity_ids (graph ms)
      \<and> snd ` set (resolved ms) \<subseteq> entity_ids (graph ms)
      \<and> referential (graph ms))"

subsection \<open>The server as the client sees it\<close>

text \<open>
  Modelled from the spec: the endpoints over the Case Graph Store. The collaborators the
  specification keeps outside are parameters: the extraction model, the reply composed
  for a turn, the text a message and its attachment make, the transcript store behind
  \<open>getCase\<close>, the text extraction behind the upload, and the color the server sends
  with a node.
\<close>

record Collaborators =
  extraction_model :: "string \<Rightarrow> string list \<Rightarrow> Extraction option"
  compose_reply :: "IngestResult \<Rightarrow> string"
  turn_text :: "string \<Rightarrow> string option \<Rightarrow> string"
  transcript :: "int \<Rightarrow> exn + CaseDetail Response"
  extract_text :: "File \<Rightarrow> exn + string Response"
  node_paint :: "string \<Rightarrow> string"

definition to_GraphData :: "(string \<Rightarrow> string) \<Rightarrow> NodeView list \<times> GraphEdge list \<Rightarrow> GraphData" where
  "to_GraphData paint = (\<lambda>(ns, es).
     \<lparr>nodes = map (\<lambda>n. \<lparr>node_id = view_id n, node_label = view_label n, node_type = view_type n,
                         node_color = paint (view_type n)\<rparr>) ns,
      edges = es\<rparr>)"

definition case_server :: "Collaborators \<Rightarrow> CaseGraphStore server" where
  "case_server co =
     \<lparr>POST_api_chat = (\<lambda>case_id' message fileContent store.
        (case ingest (extraction_model co) case_id' (turn_text co message fileContent) store of
           (Inl err, store') \<Rightarrow> (Inr \<lparr>ok = False, json = Inl (Error ''detail'')\<rparr>, store')
         | (Inr result, store') \<Rightarrow>
             (Inr \<lparr>ok = True,
                   json = Inr \<lparr>assistant_message = compose_reply co result,
                               graph_updated = ingest_graph_updated result\<rparr>\<rparr>, store'))),
      GET_api_graph = (\<lambda>case_id' store.
        (Inr \<lparr>ok = True, json = Inr (to_GraphData (node_paint co) (get_graph store case_id'))\<rparr>, store)),
      POST_api_clear = (\<lambda>case_id' store.
        (case clear_graph store case_id' of
           (done, store') \<Rightarrow>
             (Inr \<lparr>ok = True, json = Inr \<lparr>success = done, clear_message = ''Graph cleared''\<rparr>\<rparr>, store'))),
      GET_api_case = (\<lambda>case_id' store. (transcript co case_id', store)),
      POST_api_upload = (\<lambda>f store. (extract_text co f, store))\<rparr>"

section \<open>Examples\<close>

text \<open>
  A server that answers every request of one kind with one fixed outcome, and counts
  the requests it has seen.
\<close>

definition const_server :: "(exn + ChatResponse Response) \<Rightarrow> (exn + GraphData Response) \<Rightarrow>
    (exn + ClearResponse Response) \<Rightarrow> (exn + CaseDetail Response) \<Rightarrow> (exn + string Response) \<Rightarrow> nat server" where
  "const_server c g cl cs u =
     \<lparr>POST_api_chat = (\<lambda>_ _ _ b. (c, Suc b)),
      GET_api_graph = (\<lambda>_ b. (g, Suc b)),
      POST_api_clear = (\<lambda>_ b. (cl, Suc b)),
      GET_api_case = (\<lambda>_ b. (cs, Suc b)),
      POST_api_upload = (\<lambda>_ b. (u, Suc b))\<rparr>"

definition offline :: "exn + 'a Response" where
  "offline = Inl (Error ''Failed to fetch'')"

definition offline_server :: "nat server" where
  "offline_server = const_server offline offline offline offline offline"

definition node_john :: GraphNode where
  "node_john = \<lparr>node_id = ''1'', node_label = ''John Doe'', node_type = ''Person'', node_color = ''#EF4444''\<rparr>"

definition node_warehouse :: GraphNode where
  "node_warehouse = \<lparr>node_id = ''2'', node_label = ''Warehouse'', node_type = ''Location'', node_color = ''#3B82F6''\<rparr>"

definition edge_seen :: GraphEdge where
  "edge_seen = \<lparr>edge_source = ''1'', edge_target = ''2'', edge_label = ''was seen at''\<rparr>"

definition graph_seen :: GraphData where
  "graph_seen = \<lparr>nodes = [node_john, node_warehouse], edges = [edge_seen]\<rparr>"

definition updating_server :: "nat server" where
  "updating_server = const_server
     (Inr \<lparr>ok = True, json = Inr \<lparr>assistant_message = ''Noted.'', graph_updated = True\<rparr>\<rparr>)
     (Inr \<lparr>ok = True, json = Inr graph_seen\<rparr>)
     offline offline offline"

text \<open>
  A server that answers the clear with success and goes on serving the graph it had.
\<close>

definition stale_server :: "nat server" where
  "stale_server = const_server offline
     (Inr \<lparr>ok = True, json = Inr graph_seen\<rparr>)
     (Inr \<lparr>ok = True, json = Inr \<lparr>success = True, clear_message = ''Graph cleared''\<rparr>\<rparr>)
     (Inr \<lparr>ok = True, json = Inr \<lparr>case_id = 7, title = ''Case'', created_at = [], updated_at = [],
                                  case_messages = []\<rparr>\<rparr>)
     offline"

definition world0 :: "int option \<Rightarrow> string \<Rightarrow> nat world" where
  "world0 sel inp =
     \<lparr>app = \<lparr>activeTab = TabChat, messages = [], graphNodes = [node_john], graphEdges = [],
             isLoading = False, cases = [], selectedCaseId = sel, isCasesLoading = False\<rparr>,
      chat = \<lparr>input = inp, selectedFile = None\<rparr>,
      backend = 0,
      trace = []\<rparr>"

text \<open>The world of a client of the modelled server, with a graph on display.\<close>

definition case_world :: "int option \<Rightarrow> CaseGraphStore \<Rightarrow> CaseGraphStore world" where
  "case_world sel store =
     \<lparr>app = \<lparr>activeTab = TabGraph, messages = [], graphNodes = [node_john, node_warehouse],
             graphEdges = [edge_seen], isLoading = False, cases = [], selectedCaseId = sel,
             isCasesLoading = False\<rparr>,
      chat = \<lparr>input = [], selectedFile = None\<rparr>,
      backend = store,
      trace = []\<rparr>"

definition no_collaborators :: Collaborators where
  "no_collaborators =
     \<lparr>extraction_model = (\<lambda>_ _. None),
      compose_reply = (\<lambda>_. []),
      turn_text = (\<lambda>message _. message),
      transcript = (\<lambda>_. offline),
      extract_text = (\<lambda>_. offline),
      node_paint = (\<lambda>_. [])\<rparr>"

text \<open>The two turns of the scenario of the specification, as the extraction model may answer them.\<close>

definition turn1 :: Extraction where
  "turn1 =
     \<lparr>cand_entities = [\<lparr>surface_text = Some ''John Doe'', proposed_type = Some Person\<rparr>,
                       \<lparr>surface_text = Some ''Warehouse'', proposed_type = Some Location\<rparr>],
      cand_relationships = [\<lparr>source_surface = Some ''John Doe'', target_surface = Some ''Warehouse'',
                             cand_label = Some ''was seen at''\<rparr>]\<rparr>"

definition turn2 :: Extraction where
  "turn2 =
     \<lparr>cand_entities = [\<lparr>surface_text = Some ''John'', proposed_type = Some Person\<rparr>,
                       \<lparr>surface_text = Some ''Mary'', proposed_type = Some Person\<rparr>,
                       \<lparr>surface_text = Some ''Warehouse'', proposed_type = Some Location\<rparr>],
      cand_relationships = [\<lparr>source_surface = Some ''John'', target_surface = Some ''Mary'',
                             cand_label = Some ''met''\<rparr>,
                            \<lparr>source_surface = Some ''Mary'', target_surface = Some ''Warehouse'',
                             cand_label = Some ''was seen at''\<rparr>,
                            \<lparr>source_surface = Some ''Mary'', target_surface = Some ''Bob'',
                             cand_label = Some ''knows''\<rparr>]\<rparr>"

definition scenario :: "store_op list" where
  "scenario = [Ingest 7 ''John Doe was seen at the Warehouse'' (Some turn1),
               Ingest 7 ''John met Mary at the Warehouse'' (Some turn2)]"

text \<open>A mounted graph view with nothing in it, a drag that ended, and two opposite edges.\<close>

definition gv0 :: GraphViewState where
  "gv0 = \<lparr>gv_nodes = [], gv_edges = [], selectedNodeId = None, nodePositionsRef = Map.empty\<rparr>"



definition edge_met :: GraphEdge where
  "edge_met = \<lparr>edge_source = ''1'', edge_target = ''2'', edge_label = ''met''\<rparr>"

definition edge_met_back :: GraphEdge where
  "edge_met_back = \<lparr>edge_source = ''2'', edge_target = ''1'', edge_label = ''met''\<rparr>"


section \<open>Guards of the handlers\<close>

lemmas io_defs = return_io_def bind_io_def then_io_def try_catch_def try_finally_def
  emit_def await_api_def setMessages_def setGraphNodes_def setGraphEdges_def
  setIsLoading_def setInput_def setSelectedFile_def

lemmas example_defs = const_server_def offline_def offline_server_def updating_server_def
  world0_def graph_seen_def node_john_def node_warehouse_def edge_seen_def

text \<open>
  C10. With no case selected (\<open>selectedCaseId\<close> is \<open>null\<close>), \<open>handleSendMessage\<close>
  returns after one alert: no request, no message appended, no state changed;
  \<open>handleClearMemory\<close> returns with the world as it was; and the Clear Case Memory
  button, where the sidebar renders it, is disabled.
\<close>

theorem no_case_selected_guards:
  assumes "selectedCaseId (app w) = None"
  shows "handleSendMessage srv message fileContent w =
           (Inr (), w\<lparr>trace := trace w @ [Alert ''Please select or create a case first'']\<rparr>)
       \<and> handleClearMemory srv w = (Inr (), w)
       \<and> Sidebar_actions False (selectedCaseId (app w)) = ClearCaseMemoryButton True
       \<and> Sidebar_actions showConfirm (selectedCaseId (app w)) \<noteq> ClearCaseMemoryButton False"
  using assms
  by (simp add: handleSendMessage_def handleClearMemory_def Sidebar_actions_def io_defs)

theorem no_case_selected_guards_witness:
  "selectedCaseId (app (world0 None ''hello'')) = None
   \<and> handleSendMessage updating_server ''hello'' None (world0 None ''hello'') =
       (Inr (), (world0 None ''hello'')\<lparr>trace := [Alert ''Please select or create a case first'']\<rparr>)
   \<and> handleClearMemory updating_server (world0 None ''hello'') = (Inr (), world0 None ''hello'')
   \<and> Sidebar_actions False None = ClearCaseMemoryButton True"
proof -
  have h: "selectedCaseId (app (world0 None ''hello'')) = None"
    by (simp add: world0_def)
  from no_case_selected_guards [OF h, of updating_server "''hello''" None False]
  show ?thesis by (simp add: world0_def)
qed

section \<open>A chat turn\<close>

text \<open>
  C1. A chat turn whose request fails (\<open>fetch\<close> rejects, the response is not ok, or
  its body does not parse): \<open>handleSendMessage\<close> returns normally, the displayed
  nodes and edges are the ones from before the turn, the only request is the chat
  request (no graph is fetched), and the user's message is followed by an assistant
  message that reports the error.
\<close>

theorem failed_turn_keeps_graph:
  assumes "selectedCaseId (app w) = Some cid" and "cid \<noteq> 0"
      and "sendMessage srv cid message fileContent (backend w) = (Inl e, b1)"
  shows "\<exists>w'. handleSendMessage srv message fileContent w = (Inr (), w')
       \<and> graphNodes (app w') = graphNodes (app w)
       \<and> graphEdges (app w') = graphEdges (app w)
       \<and> trace w' = trace w @ [Fetch (Req_chat cid message fileContent), ConsoleError ''Failed to send message:'']
       \<and> messages (app w') = messages (app w) @
            [\<lparr>role = ''user'', content = message\<rparr>,
             \<lparr>role = ''assistant'', content = ''Sorry, there was an error processing your message. Please try again.''\<rparr>]
       \<and> isLoading (app w') = False"
  using assms
  by (simp add: handleSendMessage_def io_defs)

theorem failed_turn_keeps_graph_witness:
  "\<exists>w'. handleSendMessage offline_server ''John was seen'' None (world0 (Some 7) []) = (Inr (), w')
       \<and> graphNodes (app w') = [node_john]
       \<and> graphEdges (app w') = []
       \<and> trace w' = [Fetch (Req_chat 7 ''John was seen'' None), ConsoleError ''Failed to send message:'']
       \<and> messages (app w') =
            [\<lparr>role = ''user'', content = ''John was seen''\<rparr>,
             \<lparr>role = ''assistant'', content = ''Sorry, there was an error processing your message. Please try again.''\<rparr>]
       \<and> isLoading (app w') = False"
proof -
  have sel: "selectedCaseId (app (world0 (Some 7) [])) = Some 7"
    by (simp add: world0_def)
  have nz: "(7::int) \<noteq> 0" by simp
  have fails: "sendMessage offline_server 7 ''John was seen'' None (backend (world0 (Some 7) []))
                 = (Inl (Error ''Failed to fetch''), 1)"
    by (simp add: sendMessage_def fetch_json_def example_defs)
  from failed_turn_keeps_graph [OF sel nz fails]
  show ?thesis by (simp add: world0_def)
qed

text \<open>
  C2. A chat turn whose request succeeds: \<open>handleSendMessage\<close> returns normally, and
  it fetches the graph of the case exactly when the response's \<open>graph_updated\<close> is
  true. With the flag false the displayed nodes and edges stay as they were; with the
  flag true they become what \<open>getGraph\<close> returned, or stay when that request failed.
\<close>

theorem successful_turn_reloads_iff_updated:
  assumes "selectedCaseId (app w) = Some cid" and "cid \<noteq> 0"
      and "sendMessage srv cid message fileContent (backend w) = (Inr response, b1)"
  shows "\<exists>w'. handleSendMessage srv message fileContent w = (Inr (), w')
       \<and> (Fetch (Req_graph cid) \<in> set (drop (length (trace w)) (trace w')) \<longleftrightarrow> graph_updated response)
       \<and> (\<not> graph_updated response \<longrightarrow>
             graphNodes (app w') = graphNodes (app w) \<and> graphEdges (app w') = graphEdges (app w))
       \<and> (graph_updated response \<longrightarrow>
            (case getGraph srv cid b1 of
               (Inr data, b2) \<Rightarrow> graphNodes (app w') = nodes data \<and> graphEdges (app w') = edges data
             | (Inl e, b2) \<Rightarrow> graphNodes (app w') = graphNodes (app w) \<and> graphEdges (app w') = graphEdges (app w)))"
  using assms
  by (auto simp add: handleSendMessage_def loadGraph_def io_defs split: prod.splits sum.splits)

theorem successful_turn_reloads_iff_updated_witness:
  "\<exists>w'. handleSendMessage updating_server ''John was seen'' None (world0 (Some 7) []) = (Inr (), w')
       \<and> Fetch (Req_graph 7) \<in> set (trace w')
       \<and> graphNodes (app w') = [node_john, node_warehouse]
       \<and> graphEdges (app w') = [edge_seen]"
proof -
  have sel: "selectedCaseId (app (world0 (Some 7) [])) = Some 7"
    by (simp add: world0_def)
  have nz: "(7::int) \<noteq> 0" by simp
  have sent: "sendMessage updating_server 7 ''John was seen'' None (backend (world0 (Some 7) []))
                 = (Inr \<lparr>assistant_message = ''Noted.'', graph_updated = True\<rparr>, Suc 0)"
    by (simp add: sendMessage_def fetch_json_def example_defs)
  have got: "getGraph updating_server 7 (Suc 0) = (Inr graph_seen, Suc (Suc 0))"
    by (simp add: getGraph_def fetch_json_def example_defs)
  from successful_turn_reloads_iff_updated [OF sel nz sent]
  show ?thesis by (simp add: got world0_def graph_seen_def)
qed

section \<open>Submitting the chat form\<close>













section \<open>The colors of the entity types\<close>

text \<open>
  C6. The fallback to the Unknown color misses the names that \<open>Object.prototype\<close>
  defines: for the type \<open>constructor\<close> the lookup \<open>colors[type]\<close> finds the inherited
  member, which is truthy, and the result has no background, text color or border,
  where Unknown has its triple.
\<close>

theorem unknown_fallback_misses_prototype:
  "getEnhancedColor ''constructor'' False False =
     \<lparr>ec_bg = None, ec_text = None, ec_border = None, ec_shadow = ''0 2px 8px rgba(0,0,0,0.3)''\<rparr>
   \<and> getEnhancedColor ''Unknown'' False False =
     \<lparr>ec_bg = Some ''#6B7280'', ec_text = Some ''#FFFFFF'', ec_border = Some ''#4B5563'',
      ec_shadow = ''0 2px 8px rgba(0,0,0,0.3)''\<rparr>"
  by (simp add: getEnhancedColor_def colors_get_def colors_def Object_prototype_def spread_color_def)

text \<open>
  What does hold of the color mapping: the six types have their own triples with six
  different backgrounds, and a type that is none of the six and no name of
  \<open>Object.prototype\<close> gets the colors of Unknown.
\<close>

lemma colors_get_six:
  "map colors_get [''Person'', ''Location'', ''Object'', ''Event'', ''Organization'', ''Unknown''] = map (Own \<circ> snd) colors"
  by (simp add: colors_get_def colors_def)

lemma backgrounds_distinct: "distinct (map (triple_bg \<circ> snd) colors)"
  by (simp add: colors_def)

lemma fallback_outside_prototype:
  assumes "type' \<notin> set (map fst colors)" "type' \<notin> set Object_prototype"
  shows "getEnhancedColor type' h c = getEnhancedColor ''Unknown'' h c"
proof -
  from assms(1) have "map_of colors type' = None" by (simp add: map_of_eq_None_iff)
  with assms(2) have "colors_get type' = Undefined" by (simp add: colors_get_def)
  then show ?thesis by (simp add: getEnhancedColor_def colors_get_def colors_def)
qed

section \<open>The fields of the graph data\<close>


lemma makeFlowNode_view:
  "node_view n = node_view m \<Longrightarrow> makeFlowNode saved cols spacing (i, n) = makeFlowNode saved cols spacing (i, m)"
  by (simp add: node_view_def makeFlowNode_def makeLabel_def Let_def)

lemma nodesEffect_view:
  assumes "map node_view ns = map node_view ms"
  shows "nodesEffect ns st = nodesEffect ms st"
proof -
  from assms have len: "length ns = length ms" by (rule map_eq_imp_length_eq)
  from assms have pt: "\<And>i. i < length ns \<Longrightarrow> node_view (ns ! i) = node_view (ms ! i)"
    by (metis nth_map len)
  have "map (makeFlowNode saved cols spacing) (enumerate 0 ns) = map (makeFlowNode saved cols spacing) (enumerate 0 ms)"
    for saved cols spacing
  proof (rule nth_equalityI)
    show "length (map (makeFlowNode saved cols spacing) (enumerate 0 ns)) =
          length (map (makeFlowNode saved cols spacing) (enumerate 0 ms))"
      by (simp add: len)
  next
    fix i assume "i < length (map (makeFlowNode saved cols spacing) (enumerate 0 ns))"
    then have i: "i < length ns" by simp
    then have j: "i < length ms" by (simp add: len)
    from i j show "map (makeFlowNode saved cols spacing) (enumerate 0 ns) ! i =
          map (makeFlowNode saved cols spacing) (enumerate 0 ms) ! i"
      using makeFlowNode_view [OF pt [OF i], of saved cols spacing i]
      by (simp add: nth_enumerate_eq)
  qed
  moreover have "(ns = []) = (ms = [])" using len by auto
  ultimately show ?thesis by (simp add: nodesEffect_def len split_def)
qed

lemma restyleNode_view:
  assumes "map node_view ns = map node_view ms"
  shows "restyleNode sel ns es node = restyleNode sel ms es node"
  using assms
proof (induction ns arbitrary: ms)
  case Nil
  then show ?case by (simp add: restyleNode_def)
next
  case (Cons n ns)
  then obtain m ms' where ms: "ms = m # ms'" and v: "node_view n = node_view m"
    and rest: "map node_view ns = map node_view ms'" by (cases ms) auto
  from Cons.IH [OF rest] have ih: "restyleNode sel ns es node = restyleNode sel ms' es node" .
  show ?case
  proof (cases "node_id n = n_id node")
    case True
    with v show ?thesis by (simp add: ms restyleNode_def node_view_def makeLabel_def Let_def)
  next
    case False
    with v have "node_id m \<noteq> n_id node" by (simp add: node_view_def)
    with False ih show ?thesis by (simp add: ms restyleNode_def Let_def)
  qed
qed

text \<open>
  C7, as amended. A node of the graph data is made of the four fields id, label, type
  and color, and an edge of exactly source, target and label. The graph view reads
  only id, label and type of a node: graph data that agree on them give the same
  rendered nodes and edges, whatever the colors.
\<close>

theorem graph_view_reads_id_label_type:
  "(\<forall>n m :: GraphNode. (n = m) = (node_id n = node_id m \<and> node_label n = node_label m
                                   \<and> node_type n = node_type m \<and> node_color n = node_color m))
   \<and> (\<forall>e d :: GraphEdge. (e = d) = (edge_source e = edge_source d \<and> edge_target e = edge_target d
                                   \<and> edge_label e = edge_label d))
   \<and> (map node_view ns = map node_view ms \<longrightarrow>
        nodesEffect ns st = nodesEffect ms st \<and> selectionEffect ns es st = selectionEffect ms es st)"
proof (intro conjI allI impI)
  fix n m :: GraphNode
  show "(n = m) = (node_id n = node_id m \<and> node_label n = node_label m
                                   \<and> node_type n = node_type m \<and> node_color n = node_color m)"
    by (cases n, cases m) auto
next
  fix e d :: GraphEdge
  show "(e = d) = (edge_source e = edge_source d \<and> edge_target e = edge_target d \<and> edge_label e = edge_label d)"
    by (cases e, cases d) auto
next
  assume "map node_view ns = map node_view ms"
  then show "nodesEffect ns st = nodesEffect ms st" by (rule nodesEffect_view)
next
  assume a: "map node_view ns = map node_view ms"
  show "selectionEffect ns es st = selectionEffect ms es st"
    by (simp add: selectionEffect_def restyleNode_view [OF a])
qed

theorem graph_view_reads_id_label_type_witness:
  "map node_view [node_john] = map node_view [node_john\<lparr>node_color := ''#000000''\<rparr>]
   \<and> node_john \<noteq> node_john\<lparr>node_color := ''#000000''\<rparr>
   \<and> nodesEffect [node_john] gv0 = nodesEffect [node_john\<lparr>node_color := ''#000000''\<rparr>] gv0
   \<and> selectionEffect [node_john] [edge_seen] gv0
        = selectionEffect [node_john\<lparr>node_color := ''#000000''\<rparr>] [edge_seen] gv0"
proof -
  have same: "map node_view [node_john] = map node_view [node_john\<lparr>node_color := ''#000000''\<rparr>]"
    by (simp add: node_view_def)
  have differ: "node_john \<noteq> node_john\<lparr>node_color := ''#000000''\<rparr>"
    by (simp add: node_john_def)
  from graph_view_reads_id_label_type
         [where ns = "[node_john]" and ms = "[node_john\<lparr>node_color := ''#000000''\<rparr>]"
            and st = gv0 and es = "[edge_seen]"] same differ
  show ?thesis by blast
qed

text \<open>
  The claim C7 as it was stated fails: two nodes with one id, label and type and
  different colors are different nodes, so id, label and type are not all the fields
  of a node.
\<close>

theorem node_fields_counterexample:
  "\<not> (\<forall>n m :: GraphNode. node_id n = node_id m \<and> node_label n = node_label m \<and> node_type n = node_type m \<longrightarrow> n = m)"
proof
  assume a: "\<forall>n m :: GraphNode. node_id n = node_id m \<and> node_label n = node_label m \<and> node_type n = node_type m \<longrightarrow> n = m"
  have "node_john = node_john\<lparr>node_color := ''#000000''\<rparr>"
    by (rule a [rule_format]) simp
  then show False by (simp add: node_john_def)
qed


section \<open>The edges of the graph view\<close>

lemma digit_char_inj: "a < 10 \<Longrightarrow> b < 10 \<Longrightarrow> digit_char a = digit_char b \<Longrightarrow> a = b"
proof -
  assume a: "a < 10" and b: "b < 10" and e: "digit_char a = digit_char b"
  from e have "(of_char (digit_char a) :: nat) = of_char (digit_char b)" by simp
  with a b show "a = b" by (simp add: digit_char_def)
qed

lemma string_of_nat_nonempty: "string_of_nat n \<noteq> []"
  by (subst string_of_nat.simps) simp

lemma string_of_nat_inj: "string_of_nat n = string_of_nat m \<Longrightarrow> n = m"
proof (induction n arbitrary: m rule: string_of_nat.induct)
  case (1 n)
  show ?case
  proof (cases "n < 10")
    case True
    show ?thesis
    proof (cases "m < 10")
      case mt: True
      from "1.prems" True mt have "digit_char n = digit_char m"
        by (simp add: string_of_nat.simps [of n] string_of_nat.simps [of m])
      with True mt show ?thesis using digit_char_inj [of n m] by blast
    next
      case mf: False
      from "1.prems" True mf have "[digit_char n] = string_of_nat (m div 10) @ [digit_char (m mod 10)]"
        by (simp add: string_of_nat.simps [of n] string_of_nat.simps [of m])
      then have "string_of_nat (m div 10) = []" by simp
      with string_of_nat_nonempty show ?thesis by blast
    qed
  next
    case False
    show ?thesis
    proof (cases "m < 10")
      case mt: True
      from "1.prems" False mt have "string_of_nat (n div 10) @ [digit_char (n mod 10)] = [digit_char m]"
        by (simp add: string_of_nat.simps [of n] string_of_nat.simps [of m])
      then have "string_of_nat (n div 10) = []" by simp
      with string_of_nat_nonempty show ?thesis by blast
    next
      case mf: False
      from "1.prems" False mf have
        "string_of_nat (n div 10) @ [digit_char (n mod 10)] = string_of_nat (m div 10) @ [digit_char (m mod 10)]"
        by (simp add: string_of_nat.simps [of n] string_of_nat.simps [of m])
      then have q: "string_of_nat (n div 10) = string_of_nat (m div 10)"
        and r: "digit_char (n mod 10) = digit_char (m mod 10)" by simp_all
      from "1.IH" [OF False q] have "n div 10 = m div 10" .
      moreover from r have "n mod 10 = m mod 10" using digit_char_inj [of "n mod 10" "m mod 10"] by simp
      ultimately show ?thesis by (metis div_mult_mod_eq)
    qed
  qed
qed


text \<open>
  C8. The graph view keeps the direction of every edge: the edges it renders are as many
  as the edges of the graph data, in their order, each with the source, target and
  label of its edge, an id of its own (\<open>edge-\<close> and its index) and a closed arrow at
  the target end. So two edges with swapped endpoints and one label are rendered as two
  edges with different ids that point in opposite directions.
\<close>

theorem opposite_edges_stay_apart:
  "length (gv_edges (selectionEffect ns es st)) = length es
   \<and> distinct (map e_id (gv_edges (selectionEffect ns es st)))
   \<and> (\<forall>i < length es.
        e_id (gv_edges (selectionEffect ns es st) ! i) = ''edge-'' @ string_of_nat i
      \<and> e_source (gv_edges (selectionEffect ns es st) ! i) = edge_source (es ! i)
      \<and> e_target (gv_edges (selectionEffect ns es st) ! i) = edge_target (es ! i)
      \<and> e_label (gv_edges (selectionEffect ns es st) ! i) = edge_label (es ! i)
      \<and> marker_type (e_markerEnd (gv_edges (selectionEffect ns es st) ! i)) = ArrowClosed)
   \<and> (\<forall>i < length es. \<forall>j < length es.
        i \<noteq> j \<and> edge_source (es ! i) = edge_target (es ! j) \<and> edge_target (es ! i) = edge_source (es ! j)
              \<and> edge_label (es ! i) = edge_label (es ! j) \<longrightarrow>
        e_id (gv_edges (selectionEffect ns es st) ! i) \<noteq> e_id (gv_edges (selectionEffect ns es st) ! j)
      \<and> e_source (gv_edges (selectionEffect ns es st) ! i) = e_target (gv_edges (selectionEffect ns es st) ! j)
      \<and> e_target (gv_edges (selectionEffect ns es st) ! i) = e_source (gv_edges (selectionEffect ns es st) ! j))"
proof -
  let ?es' = "gv_edges (selectionEffect ns es st)"
  have eq: "?es' = map (makeFlowEdge (selectedNodeId st)) (enumerate 0 es)"
    by (simp add: selectionEffect_def)
  have len: "length ?es' = length es" by (simp add: eq)
  have pt: "\<forall>i < length es.
        e_id (?es' ! i) = ''edge-'' @ string_of_nat i
      \<and> e_source (?es' ! i) = edge_source (es ! i)
      \<and> e_target (?es' ! i) = edge_target (es ! i)
      \<and> e_label (?es' ! i) = edge_label (es ! i)
      \<and> marker_type (e_markerEnd (?es' ! i)) = ArrowClosed"
    by (simp add: eq nth_enumerate_eq makeFlowEdge_def Let_def)
  have dist: "distinct (map e_id ?es')"
    unfolding distinct_conv_nth using pt len by (auto dest: string_of_nat_inj)
  have sw: "\<forall>i < length es. \<forall>j < length es.
        i \<noteq> j \<and> edge_source (es ! i) = edge_target (es ! j) \<and> edge_target (es ! i) = edge_source (es ! j)
              \<and> edge_label (es ! i) = edge_label (es ! j) \<longrightarrow>
        e_id (?es' ! i) \<noteq> e_id (?es' ! j)
      \<and> e_source (?es' ! i) = e_target (?es' ! j)
      \<and> e_target (?es' ! i) = e_source (?es' ! j)"
    using pt by (auto dest: string_of_nat_inj)
  from len dist pt sw show ?thesis by blast
qed

theorem opposite_edges_stay_apart_witness:
  "length (gv_edges (selectionEffect [] [edge_met, edge_met_back] gv0)) = 2
   \<and> e_id (gv_edges (selectionEffect [] [edge_met, edge_met_back] gv0) ! 0) = ''edge-0''
   \<and> e_id (gv_edges (selectionEffect [] [edge_met, edge_met_back] gv0) ! 1) = ''edge-1''
   \<and> e_id (gv_edges (selectionEffect [] [edge_met, edge_met_back] gv0) ! 0)
        \<noteq> e_id (gv_edges (selectionEffect [] [edge_met, edge_met_back] gv0) ! 1)
   \<and> e_source (gv_edges (selectionEffect [] [edge_met, edge_met_back] gv0) ! 0) = ''1''
   \<and> e_target (gv_edges (selectionEffect [] [edge_met, edge_met_back] gv0) ! 0) = ''2''
   \<and> e_source (gv_edges (selectionEffect [] [edge_met, edge_met_back] gv0) ! 1) = ''2''
   \<and> e_target (gv_edges (selectionEffect [] [edge_met, edge_met_back] gv0) ! 1) = ''1''
   \<and> marker_type (e_markerEnd (gv_edges (selectionEffect [] [edge_met, edge_met_back] gv0) ! 0)) = ArrowClosed
   \<and> marker_type (e_markerEnd (gv_edges (selectionEffect [] [edge_met, edge_met_back] gv0) ! 1)) = ArrowClosed"
proof -
  let ?es = "[edge_met, edge_met_back]"
  note t = opposite_edges_stay_apart [where ns = "[]" and es = ?es and st = gv0]
  have l0: "0 < length ?es" and l1: "1 < length ?es" by simp_all
  have swapped: "(0::nat) \<noteq> 1 \<and> edge_source (?es ! 0) = edge_target (?es ! 1)
      \<and> edge_target (?es ! 0) = edge_source (?es ! 1) \<and> edge_label (?es ! 0) = edge_label (?es ! 1)"
    by (simp add: edge_met_def edge_met_back_def)
  from t have len: "length (gv_edges (selectionEffect [] ?es gv0)) = length ?es" by blast
  from t l0 have p0: "e_id (gv_edges (selectionEffect [] ?es gv0) ! 0) = ''edge-'' @ string_of_nat 0
      \<and> e_source (gv_edges (selectionEffect [] ?es gv0) ! 0) = edge_source (?es ! 0)
      \<and> e_target (gv_edges (selectionEffect [] ?es gv0) ! 0) = edge_target (?es ! 0)
      \<and> marker_type (e_markerEnd (gv_edges (selectionEffect [] ?es gv0) ! 0)) = ArrowClosed"
    by blast
  from t l1 have p1: "e_id (gv_edges (selectionEffect [] ?es gv0) ! 1) = ''edge-'' @ string_of_nat 1
      \<and> e_source (gv_edges (selectionEffect [] ?es gv0) ! 1) = edge_source (?es ! 1)
      \<and> e_target (gv_edges (selectionEffect [] ?es gv0) ! 1) = edge_target (?es ! 1)
      \<and> marker_type (e_markerEnd (gv_edges (selectionEffect [] ?es gv0) ! 1)) = ArrowClosed"
    by blast
  from t l0 l1 swapped have apart: "e_id (gv_edges (selectionEffect [] ?es gv0) ! 0)
        \<noteq> e_id (gv_edges (selectionEffect [] ?es gv0) ! 1)"
    by blast
  have d0: "string_of_nat 0 = ''0''" and d1: "string_of_nat (Suc 0) = ''1''"
    by code_simp+
  from len p0 p1 apart show ?thesis
    by (simp add: d0 d1 edge_met_def edge_met_back_def)
qed

section \<open>The positions of the nodes\<close>

text \<open>
  The column count of a large graph is the ceiling of the real square root, as
  \<open>Math.ceil(Math.sqrt(nodeCount))\<close> computes it.
\<close>

lemma ceil_sqrt_least:
  "n \<le> ceil_sqrt n * ceil_sqrt n \<and> (\<forall>d < ceil_sqrt n. \<not> n \<le> d * d)"
proof (cases "find (\<lambda>c. n \<le> c * c) [0..<Suc n]")
  case None
  then have "\<forall>x \<in> set [0..<Suc n]. \<not> n \<le> x * x"
    by (simp only: find_None_iff) blast
  then have "\<not> n \<le> n * n" by simp
  moreover have "n \<le> n * n" by (cases n) simp_all
  ultimately show ?thesis by blast
next
  case (Some c)
  then obtain i where i: "i < length [0..<Suc n]" and p: "n \<le> ([0..<Suc n] ! i) * ([0..<Suc n] ! i)"
    and c: "c = [0..<Suc n] ! i" and least: "\<forall>j < i. \<not> n \<le> ([0..<Suc n] ! j) * ([0..<Suc n] ! j)"
    by (auto simp add: find_Some_iff)
  from i have il: "i < Suc n" by simp
  then have ci: "c = i" using c by (simp del: upt_Suc)
  have "\<forall>d < c. \<not> n \<le> d * d"
  proof (intro allI impI)
    fix d assume d: "d < c"
    with ci il have "d < Suc n" by simp
    then have "[0..<Suc n] ! d = d" by (simp del: upt_Suc)
    with least d ci show "\<not> n \<le> d * d" by metis
  qed
  moreover from p c have "n \<le> c * c" by simp
  moreover from Some have "ceil_sqrt n = c" by (simp add: ceil_sqrt_def)
  ultimately show ?thesis by simp
qed

lemma ceil_sqrt_is_ceiling_of_sqrt: "int (ceil_sqrt n) = \<lceil>sqrt (real n)\<rceil>"
proof -
  let ?c = "ceil_sqrt n"
  from ceil_sqrt_least have up: "n \<le> ?c * ?c" and low: "\<forall>d < ?c. \<not> n \<le> d * d" by blast+
  from up have "real n \<le> (real ?c)\<^sup>2"
    by (metis of_nat_le_iff of_nat_mult power2_eq_square)
  then have le: "sqrt (real n) \<le> real ?c"
    by (simp add: real_le_lsqrt)
  have gt: "real ?c - 1 < sqrt (real n)"
  proof (cases ?c)
    case 0
    have "0 \<le> sqrt (real n)" by simp
    then have "- 1 < sqrt (real n)" by linarith
    with 0 show ?thesis by simp
  next
    case (Suc d)
    with low have "\<not> n \<le> d * d" by simp
    then have "d * d < n" by simp
    then have "(real d)\<^sup>2 < real n"
      by (metis of_nat_less_iff of_nat_mult power2_eq_square)
    then have "real d < sqrt (real n)"
      by (simp add: real_less_rsqrt)
    with Suc show ?thesis by simp
  qed
  from le gt show ?thesis
    by (intro ceiling_unique [symmetric]) simp_all
qed













section \<open>Referential integrity of the case graph\<close>

lemma most_recent_mem: "most_recent es = Some e \<Longrightarrow> e \<in> set es"
  by (induction es arbitrary: e) (auto split: option.splits if_splits)

lemma resolve_sound: "resolve g s ty = Matched i \<Longrightarrow> i \<in> entity_ids g"
proof -
  assume a: "resolve g s ty = Matched i"
  show ?thesis
  proof (cases "exact_alias_match g s ty")
    case (Some e)
    then have "e \<in> set (entities g)"
      by (auto simp add: exact_alias_match_def find_Some_iff)
    with a Some show ?thesis by (auto simp add: resolve_def entity_ids_def)
  next
    case None
    with a obtain e where m: "most_recent (fuzzy_candidates g s ty) = Some e" and i: "i = ent_id e"
      by (auto simp add: resolve_def split: option.splits)
    from m have "e \<in> set (fuzzy_candidates g s ty)" by (rule most_recent_mem)
    then have "e \<in> set (entities g)"
      by (auto simp add: fuzzy_candidates_def split: if_splits)
    with i show ?thesis by (auto simp add: entity_ids_def)
  qed
qed

lemma record_mention_id: "ent_id (record_mention i s t e) = ent_id e"
  by (simp add: record_mention_def)

lemma merge_mention_inv:
  assumes "merge_inv snapshot ms"
  shows "merge_inv snapshot (merge_mention snapshot t c ms)"
proof (cases "surface_text c")
  case None
  with assms show ?thesis by (simp add: merge_mention_def)
next
  case (Some surface)
  note s = this
  show ?thesis
  proof (cases "proposed_type c")
    case None
    with s assms show ?thesis by (simp add: merge_mention_def)
  next
    case (Some ty)
    show ?thesis
    proof (cases "resolve snapshot surface ty")
      case (Matched i)
      from resolve_sound [OF Matched] assms have "i \<in> entity_ids (graph ms)"
        by (auto simp add: merge_inv_def)
      with assms s Some Matched show ?thesis
        by (auto simp add: merge_mention_def merge_inv_def entity_ids_def referential_def
              record_mention_id image_image)
    next
      case New
      with assms s Some show ?thesis
        by (auto simp add: merge_mention_def merge_inv_def entity_ids_def referential_def Let_def)
    qed
  qed
qed

lemma merge_mentions_inv:
  "merge_inv snapshot ms \<Longrightarrow> merge_inv snapshot (fold (merge_mention snapshot t) cs ms)"
  by (induction cs arbitrary: ms) (simp_all add: merge_mention_inv)

lemma strengthen_ends: "source_id (strengthen s t' l t r) = source_id r \<and> target_id (strengthen s t' l t r) = target_id r"
  by (simp add: strengthen_def)

lemma merge_relationship_inv:
  assumes "merge_inv snapshot ms"
  shows "merge_inv snapshot (merge_relationship t c ms)"
proof -
  have tbl: "\<And>k i. map_of (resolved ms) k = Some i \<Longrightarrow> i \<in> entity_ids (graph ms)"
  proof -
    fix k i assume "map_of (resolved ms) k = Some i"
    then have "(k, i) \<in> set (resolved ms)" by (rule map_of_SomeD)
    then have "i \<in> snd ` set (resolved ms)" by force
    with assms show "i \<in> entity_ids (graph ms)" by (auto simp add: merge_inv_def)
  qed
  show ?thesis
    using assms
    by (auto simp add: merge_relationship_def merge_inv_def referential_def entity_ids_def strengthen_ends
          split: option.splits dest: tbl [unfolded entity_ids_def])
qed

lemma merge_relationships_inv:
  "merge_inv snapshot ms \<Longrightarrow> merge_inv snapshot (fold (merge_relationship t) cs ms)"
  by (induction cs arbitrary: ms) (simp_all add: merge_relationship_inv)

lemma merge_referential:
  assumes "referential g"
  shows "referential (fst (merge g candidates))"
proof -
  let ?t = "Suc (turn g)"
  let ?ms0 = "\<lparr>graph = g\<lparr>turn := ?t\<rparr>, resolved = [], diff = empty_diff\<rparr>"
  from assms have "merge_inv g ?ms0"
    by (simp add: merge_inv_def referential_def entity_ids_def)
  then have "merge_inv g (fold (merge_mention g ?t) (cand_entities candidates) ?ms0)"
    by (rule merge_mentions_inv)
  then have "merge_inv g (fold (merge_relationship ?t) (cand_relationships candidates)
      (fold (merge_mention g ?t) (cand_entities candidates) ?ms0))"
    by (rule merge_relationships_inv)
  then show ?thesis by (simp add: merge_def Let_def merge_inv_def)
qed

lemma empty_referential: "referential empty_graph"
  by (simp add: referential_def empty_graph_def)

lemma store_step_referential:
  assumes "\<And>c. referential (store c)"
  shows "referential (store_step op' store c)"
proof (cases op')
  case (Ingest c' raw answer)
  show ?thesis
  proof (cases "trim raw = [] \<or> answer = None")
    case True
    with Ingest assms show ?thesis by (auto simp add: ingest_def)
  next
    case False
    then obtain cands where a: "answer = Some cands" and r: "trim raw \<noteq> []" by auto
    have "store_step op' store = store(c' := fst (merge (store c') cands))"
      using Ingest a r by (simp add: ingest_def Let_def split_def)
    with assms merge_referential [OF assms [of c'], of cands] show ?thesis by simp
  qed
next
  case (Clear c')
  with assms show ?thesis by (simp add: clear_graph_def reset_def empty_referential)
qed

lemma run_referential:
  "(\<And>c. referential (store c)) \<Longrightarrow> referential (fold store_step ops store c)"
proof (induction ops arbitrary: store c)
  case Nil
  then show ?case by simp
next
  case (Cons a ops)
  have "\<And>c. referential (store_step a store c)"
    using Cons.prems by (rule store_step_referential)
  then have "referential (fold store_step ops (store_step a store) c)" by (rule Cons.IH)
  then show ?case by simp
qed

text \<open>
  C3. For the graph that any run of ingests and clears leaves in the store, for any
  case: every relationship has both endpoints among the entities of that graph, and
  every edge that \<open>get_graph\<close> returns has its source and its target among the ids of
  the nodes it returns with it. A run is any run, so this holds after each of its
  steps: no relationship is in a graph before both its endpoints are.
\<close>

theorem edges_have_their_endpoints:
  "referential (fold store_step ops empty_store case_id')
   \<and> (\<forall>e \<in> set (snd (get_graph (fold store_step ops empty_store) case_id')).
        edge_source e \<in> view_id ` set (fst (get_graph (fold store_step ops empty_store) case_id'))
      \<and> edge_target e \<in> view_id ` set (fst (get_graph (fold store_step ops empty_store) case_id')))"
proof -
  let ?g = "fold store_step ops empty_store case_id'"
  have r: "referential ?g"
    by (rule run_referential) (simp add: empty_store_def empty_referential)
  then have "\<forall>e \<in> set (snd (get_graph (fold store_step ops empty_store) case_id')).
        edge_source e \<in> view_id ` set (fst (get_graph (fold store_step ops empty_store) case_id'))
      \<and> edge_target e \<in> view_id ` set (fst (get_graph (fold store_step ops empty_store) case_id'))"
    by (auto simp add: get_graph_def Let_def referential_def entity_ids_def image_image)
  with r show ?thesis by blast
qed

lemma scenario_graph:
  "get_graph (fold store_step scenario empty_store) 7 =
    ([\<lparr>view_id = ''0'', view_label = ''John Doe'', view_type = ''Person''\<rparr>,
      \<lparr>view_id = ''1'', view_label = ''Warehouse'', view_type = ''Location''\<rparr>,
      \<lparr>view_id = ''2'', view_label = ''Mary'', view_type = ''Person''\<rparr>],
     [\<lparr>edge_source = ''0'', edge_target = ''1'', edge_label = ''was seen at''\<rparr>,
      \<lparr>edge_source = ''0'', edge_target = ''2'', edge_label = ''met''\<rparr>,
      \<lparr>edge_source = ''2'', edge_target = ''1'', edge_label = ''was seen at''\<rparr>])"
  by code_simp

theorem edges_have_their_endpoints_witness:
  "snd (get_graph (fold store_step scenario empty_store) 7) =
     [\<lparr>edge_source = ''0'', edge_target = ''1'', edge_label = ''was seen at''\<rparr>,
      \<lparr>edge_source = ''0'', edge_target = ''2'', edge_label = ''met''\<rparr>,
      \<lparr>edge_source = ''2'', edge_target = ''1'', edge_label = ''was seen at''\<rparr>]
   \<and> view_id ` set (fst (get_graph (fold store_step scenario empty_store) 7)) = {''0'', ''1'', ''2''}
   \<and> list_all (\<lambda>e. edge_source e \<in> view_id ` set (fst (get_graph (fold store_step scenario empty_store) 7))
                  \<and> edge_target e \<in> view_id ` set (fst (get_graph (fold store_step scenario empty_store) 7)))
        (snd (get_graph (fold store_step scenario empty_store) 7))"
proof -
  from edges_have_their_endpoints [of scenario 7]
  have "list_all (\<lambda>e. edge_source e \<in> view_id ` set (fst (get_graph (fold store_step scenario empty_store) 7))
                  \<and> edge_target e \<in> view_id ` set (fst (get_graph (fold store_step scenario empty_store) 7)))
        (snd (get_graph (fold store_step scenario empty_store) 7))"
    by (simp add: list_all_iff)
  moreover have "snd (get_graph (fold store_step scenario empty_store) 7) =
     [\<lparr>edge_source = ''0'', edge_target = ''1'', edge_label = ''was seen at''\<rparr>,
      \<lparr>edge_source = ''0'', edge_target = ''2'', edge_label = ''met''\<rparr>,
      \<lparr>edge_source = ''2'', edge_target = ''1'', edge_label = ''was seen at''\<rparr>]"
    by (simp add: scenario_graph)
  moreover have "view_id ` set (fst (get_graph (fold store_step scenario empty_store) 7)) = {''0'', ''1'', ''2''}"
    by (simp add: scenario_graph)
  ultimately show ?thesis by blast
qed

section \<open>Clearing a case\<close>

text \<open>
  C4, as amended. \<open>clear_graph\<close> twice in a row succeeds both times and leaves the
  empty graph both times, the second call changing nothing; on a case whose graph is
  already empty it is a success that changes nothing. On the client, once the clear
  call has succeeded \<open>handleClearMemory\<close> empties the displayed nodes and edges and
  reloads the case: it returns normally, and the display ends with what \<open>getGraph\<close>
  returned when both the case and the graph were reloaded, and empty when either
  reload failed. Against the server modelled from the specification, which serves the
  cleared graph, the display
  ends empty whatever the transcript store answers.
\<close>

theorem clear_graph_then_reload:
  "(case clear_graph store c of (ok1, s1) \<Rightarrow>
      (case clear_graph s1 c of (ok2, s2) \<Rightarrow>
         ok1 \<and> ok2 \<and> get_graph s1 c = ([], []) \<and> get_graph s2 c = ([], []) \<and> s2 = s1))
   \<and> (store c = empty_graph \<longrightarrow> clear_graph store c = (True, store))
   \<and> (selectedCaseId (app w) = Some c \<and> c \<noteq> 0 \<longrightarrow>
        (\<exists>w'. handleClearMemory (case_server co) w = (Inr (), w')
             \<and> graphNodes (app w') = [] \<and> graphEdges (app w') = []
             \<and> backend w' = reset (backend w) c))
   \<and> (selectedCaseId (app v) = Some c \<and> c \<noteq> 0
        \<and> clearGraph srv c (backend v) = (Inr r, after_clear)
        \<and> getCase srv c after_clear = (reloaded_case, after_case)
        \<and> getGraph srv c after_case = (reloaded_graph, after_graph) \<longrightarrow>
        (\<exists>v'. handleClearMemory srv v = (Inr (), v')
             \<and> (graphNodes (app v'), graphEdges (app v')) =
                 (case (reloaded_case, reloaded_graph) of
                    (Inr detail, Inr d) \<Rightarrow> (nodes d, edges d)
                  | _ \<Rightarrow> ([], []))))"
proof (intro conjI impI)
  show "case clear_graph store c of (ok1, s1) \<Rightarrow>
      (case clear_graph s1 c of (ok2, s2) \<Rightarrow>
         ok1 \<and> ok2 \<and> get_graph s1 c = ([], []) \<and> get_graph s2 c = ([], []) \<and> s2 = s1)"
    by (simp add: clear_graph_def reset_def get_graph_def empty_graph_def)
next
  assume "store c = empty_graph"
  then show "clear_graph store c = (True, store)"
    by (auto simp add: clear_graph_def reset_def)
next
  assume a: "selectedCaseId (app w) = Some c \<and> c \<noteq> 0"
  have cl: "clearGraph (case_server co) c b = (Inr \<lparr>success = True, clear_message = ''Graph cleared''\<rparr>, reset b c)" for b
    by (simp add: clearGraph_def fetch_json_def case_server_def clear_graph_def)
  have gg: "getGraph (case_server co) c (reset b c) = (Inr \<lparr>nodes = [], edges = []\<rparr>, reset b c)" for b
    by (simp add: getGraph_def fetch_json_def case_server_def get_graph_def reset_def empty_graph_def to_GraphData_def)
  have gc: "snd (getCase (case_server co) c b) = b" for b
    by (simp add: getCase_def fetch_json_def case_server_def split: sum.splits)
  obtain rc where rc: "getCase (case_server co) c (reset (backend w) c) = (rc, reset (backend w) c)"
    using gc [of "reset (backend w) c"] by (cases "getCase (case_server co) c (reset (backend w) c)") simp
  show "\<exists>w'. handleClearMemory (case_server co) w = (Inr (), w')
             \<and> graphNodes (app w') = [] \<and> graphEdges (app w') = []
             \<and> backend w' = reset (backend w) c"
    using a by (cases rc) (simp_all add: handleClearMemory_def loadCaseData_def loadGraph_def io_defs cl gg rc)
next
  assume a: "selectedCaseId (app v) = Some c \<and> c \<noteq> 0
        \<and> clearGraph srv c (backend v) = (Inr r, after_clear)
        \<and> getCase srv c after_clear = (reloaded_case, after_case)
        \<and> getGraph srv c after_case = (reloaded_graph, after_graph)"
  show "\<exists>v'. handleClearMemory srv v = (Inr (), v')
             \<and> (graphNodes (app v'), graphEdges (app v')) =
                 (case (reloaded_case, reloaded_graph) of
                    (Inr detail, Inr d) \<Rightarrow> (nodes d, edges d)
                  | _ \<Rightarrow> ([], []))"
  proof (cases reloaded_case)
    case (Inl e)
    with a show ?thesis
      by (simp add: handleClearMemory_def loadCaseData_def loadGraph_def io_defs)
  next
    case (Inr detail)
    show ?thesis
    proof (cases reloaded_graph)
      case (Inl e)
      with a Inr show ?thesis
        by (simp add: handleClearMemory_def loadCaseData_def loadGraph_def io_defs)
    next
      case gr: (Inr d)
      with a Inr show ?thesis
        by (simp add: handleClearMemory_def loadCaseData_def loadGraph_def io_defs)
    qed
  qed
qed

theorem clear_graph_then_reload_witness:
  "get_graph (fold store_step scenario empty_store) 7 \<noteq> ([], [])
   \<and> (case clear_graph (fold store_step scenario empty_store) 7 of (ok1, s1) \<Rightarrow>
        (case clear_graph s1 7 of (ok2, s2) \<Rightarrow>
           ok1 \<and> ok2 \<and> get_graph s1 7 = ([], []) \<and> get_graph s2 7 = ([], []) \<and> s2 = s1))
   \<and> clear_graph empty_store 7 = (True, empty_store)
   \<and> graphNodes (app (case_world (Some 7) (fold store_step scenario empty_store))) = [node_john, node_warehouse]
   \<and> (\<exists>w'. handleClearMemory (case_server no_collaborators) (case_world (Some 7) (fold store_step scenario empty_store))
              = (Inr (), w')
           \<and> graphNodes (app w') = [] \<and> graphEdges (app w') = []
           \<and> backend w' = reset (fold store_step scenario empty_store) 7)
   \<and> clearGraph stale_server 7 (backend (world0 (Some 7) []))
        = (Inr \<lparr>success = True, clear_message = ''Graph cleared''\<rparr>, Suc 0)
   \<and> (\<exists>v'. handleClearMemory stale_server (world0 (Some 7) []) = (Inr (), v')
           \<and> (graphNodes (app v'), graphEdges (app v')) = ([node_john, node_warehouse], [edge_seen]))"
proof -
  let ?store = "fold store_step scenario empty_store"
  let ?w = "case_world (Some 7) ?store"
  let ?v = "world0 (Some 7) []"
  let ?detail = "\<lparr>case_id = 7, title = ''Case'', created_at = [], updated_at = [], case_messages = []\<rparr>"
  note t = clear_graph_then_reload [where store = ?store and c = 7 and w = ?w and co = no_collaborators
      and v = ?v and srv = stale_server
      and r = "\<lparr>success = True, clear_message = ''Graph cleared''\<rparr>" and after_clear = "Suc 0"
      and reloaded_case = "Inr ?detail" and after_case = "Suc (Suc 0)"
      and reloaded_graph = "Inr graph_seen" and after_graph = "Suc (Suc (Suc 0))"]
  note t0 = clear_graph_then_reload [where store = empty_store and c = 7 and w = ?w and co = no_collaborators
      and v = ?v and srv = stale_server
      and r = "\<lparr>success = True, clear_message = ''Graph cleared''\<rparr>" and after_clear = "Suc 0"
      and reloaded_case = "Inr ?detail" and after_case = "Suc (Suc 0)"
      and reloaded_graph = "Inr graph_seen" and after_graph = "Suc (Suc (Suc 0))"]
  have full: "get_graph ?store 7 \<noteq> ([], [])" by (simp add: scenario_graph)
  have sel: "selectedCaseId (app ?w) = Some 7 \<and> (7::int) \<noteq> 0" by (simp add: case_world_def)
  have shown: "graphNodes (app ?w) = [node_john, node_warehouse]" by (simp add: case_world_def)
  have fresh: "empty_store 7 = empty_graph" by (simp add: empty_store_def)
  from t have twice: "case clear_graph ?store 7 of (ok1, s1) \<Rightarrow>
        (case clear_graph s1 7 of (ok2, s2) \<Rightarrow>
           ok1 \<and> ok2 \<and> get_graph s1 7 = ([], []) \<and> get_graph s2 7 = ([], []) \<and> s2 = s1)"
    by (elim conjE)
  from t0 have "empty_store 7 = empty_graph \<longrightarrow> clear_graph empty_store 7 = (True, empty_store)"
    by (elim conjE)
  with fresh have noop: "clear_graph empty_store 7 = (True, empty_store)" by simp
  from t have "selectedCaseId (app ?w) = Some 7 \<and> (7::int) \<noteq> 0 \<longrightarrow>
        (\<exists>w'. handleClearMemory (case_server no_collaborators) ?w = (Inr (), w')
           \<and> graphNodes (app w') = [] \<and> graphEdges (app w') = []
           \<and> backend w' = reset (backend ?w) 7)"
    by (elim conjE)
  with sel have client: "\<exists>w'. handleClearMemory (case_server no_collaborators) ?w = (Inr (), w')
           \<and> graphNodes (app w') = [] \<and> graphEdges (app w') = []
           \<and> backend w' = reset (backend ?w) 7"
    by blast
  have "backend ?w = ?store" by (simp add: case_world_def)
  with client have client': "\<exists>w'. handleClearMemory (case_server no_collaborators) ?w = (Inr (), w')
           \<and> graphNodes (app w') = [] \<and> graphEdges (app w') = []
           \<and> backend w' = reset ?store 7"
    by simp
  have cleared: "clearGraph stale_server 7 (backend ?v)
        = (Inr \<lparr>success = True, clear_message = ''Graph cleared''\<rparr>, Suc 0)"
    by (simp add: stale_server_def clearGraph_def fetch_json_def const_server_def world0_def)
  have recase: "getCase stale_server 7 (Suc 0) = (Inr ?detail, Suc (Suc 0))"
    by (simp add: stale_server_def getCase_def fetch_json_def const_server_def)
  have regraph: "getGraph stale_server 7 (Suc (Suc 0)) = (Inr graph_seen, Suc (Suc (Suc 0)))"
    by (simp add: stale_server_def getGraph_def fetch_json_def const_server_def)
  have selv: "selectedCaseId (app ?v) = Some 7 \<and> (7::int) \<noteq> 0" by (simp add: world0_def)
  from t have "selectedCaseId (app ?v) = Some 7 \<and> (7::int) \<noteq> 0
        \<and> clearGraph stale_server 7 (backend ?v) = (Inr \<lparr>success = True, clear_message = ''Graph cleared''\<rparr>, Suc 0)
        \<and> getCase stale_server 7 (Suc 0) = (Inr ?detail, Suc (Suc 0))
        \<and> getGraph stale_server 7 (Suc (Suc 0)) = (Inr graph_seen, Suc (Suc (Suc 0))) \<longrightarrow>
        (\<exists>v'. handleClearMemory stale_server ?v = (Inr (), v')
             \<and> (graphNodes (app v'), graphEdges (app v')) =
                 (case (Inr ?detail :: exn + CaseDetail, Inr graph_seen :: exn + GraphData) of
                    (Inr detail, Inr d) \<Rightarrow> (nodes d, edges d)
                  | _ \<Rightarrow> ([], [])))"
    by (elim conjE)
  with selv cleared recase regraph have "\<exists>v'. handleClearMemory stale_server ?v = (Inr (), v')
             \<and> (graphNodes (app v'), graphEdges (app v')) =
                 (case (Inr ?detail :: exn + CaseDetail, Inr graph_seen :: exn + GraphData) of
                    (Inr detail, Inr d) \<Rightarrow> (nodes d, edges d)
                  | _ \<Rightarrow> ([], []))"
    by blast
  then have reloaded: "\<exists>v'. handleClearMemory stale_server ?v = (Inr (), v')
           \<and> (graphNodes (app v'), graphEdges (app v')) = ([node_john, node_warehouse], [edge_seen])"
    by (simp add: graph_seen_def)
  from full twice noop shown client' cleared reloaded show ?thesis by (intro conjI)
qed

text \<open>
  The claim C4 as it was stated fails in its last part: after a clear call that
  succeeded, \<open>handleClearMemory\<close> does not always leave the display empty. When the
  server goes on serving the graph, the reload puts its nodes and edges back on
  display.
\<close>

theorem clear_leaves_display_empty_counterexample:
  "\<not> (\<forall>(srv :: nat server) w c r b.
        selectedCaseId (app w) = Some c \<and> c \<noteq> 0 \<and> clearGraph srv c (backend w) = (Inr r, b) \<longrightarrow>
        graphNodes (app (snd (handleClearMemory srv w))) = []
      \<and> graphEdges (app (snd (handleClearMemory srv w))) = [])"
proof
  assume a: "\<forall>(srv :: nat server) w c r b.
        selectedCaseId (app w) = Some c \<and> c \<noteq> 0 \<and> clearGraph srv c (backend w) = (Inr r, b) \<longrightarrow>
        graphNodes (app (snd (handleClearMemory srv w))) = []
      \<and> graphEdges (app (snd (handleClearMemory srv w))) = []"
  have pre: "selectedCaseId (app (world0 (Some 7) [])) = Some 7 \<and> (7::int) \<noteq> 0
      \<and> clearGraph stale_server 7 (backend (world0 (Some 7) []))
           = (Inr \<lparr>success = True, clear_message = ''Graph cleared''\<rparr>, Suc 0)"
    by (simp add: stale_server_def clearGraph_def fetch_json_def const_server_def world0_def)
  have shown: "graphNodes (app (snd (handleClearMemory stale_server (world0 (Some 7) []))))
                 = [node_john, node_warehouse]"
    by (simp add: stale_server_def handleClearMemory_def loadCaseData_def loadGraph_def clearGraph_def
          getCase_def getGraph_def fetch_json_def io_defs const_server_def offline_def world0_def graph_seen_def)
  from a pre have "graphNodes (app (snd (handleClearMemory stale_server (world0 (Some 7) [])))) = []"
    by blast
  with shown show False by simp
qed

end
